theory Spec2Isabelle
  imports Complex_Main "HOL-Library.Sublist"
begin

section \<open>VoiceChat client: session, segment rendering and ordered playback\<close>

text \<open>
  The repository keeps four revisions of the browser script. The newest one
  (\<^verbatim>\<open>src/unnamed/part_000\<close>, lines 1-381) has the session start, the segment
  disclosure policy and the correction panel; \<^verbatim>\<open>src/static/app.js\<close> holds two
  older revisions (lines 1-200 and 202-352) and the second half of
  \<^verbatim>\<open>src/unnamed/part_000\<close> (lines 383-503) the oldest one. Definitions without a
  suffix embed the newest revision; the suffixes \<open>_static\<close>, \<open>_static2\<close> and
  \<open>_legacy\<close> mark the three older ones.

  Strings are byte lists holding the UTF-8 form of the script's text, so that
  equality and concatenation are those of the script.
\<close>

subsection \<open>Ordered audio playback\<close>

text \<open>
  \<^verbatim>\<open>
  async function playAudioSequentially(audioSegments) {
      for (const segment of audioSegments) {
          await new Promise((resolve, reject) => {
              const audio = new Audio(segment.audio_url);
              audio.onended = resolve;
              audio.onerror = reject;
              audio.play().catch(reject);
          });
      }
  }
  \<close>
  What a clip does after \<^verbatim>\<open>play()\<close> is the platform's choice: it ends, it
  raises \<^verbatim>\<open>error\<close>, the promise of \<^verbatim>\<open>play()\<close> rejects, or none of the three
  ever happens. The loop's cursor is the position in the list.
\<close>

record audio_segment =
  a_lang :: string
  audio_url :: string

datatype clip_outcome = Ended | LoadError | PlayRejected | Stalled

datatype play_event = PlayCalled nat string | ClipEnded nat | ClipFailed nat

datatype play_result = Completed | Rejected | Suspended

fun play_from :: "nat \<Rightarrow> (nat \<Rightarrow> clip_outcome) \<Rightarrow> audio_segment list
    \<Rightarrow> play_event list \<times> play_result" where
  "play_from i env [] = ([], Completed)"
| "play_from i env (segment # rest) =
     (case env i of
        Ended \<Rightarrow>
          (PlayCalled i (audio_url segment) # ClipEnded i # fst (play_from (Suc i) env rest),
           snd (play_from (Suc i) env rest))
      | LoadError \<Rightarrow> ([PlayCalled i (audio_url segment), ClipFailed i], Rejected)
      | PlayRejected \<Rightarrow> ([PlayCalled i (audio_url segment), ClipFailed i], Rejected)
      | Stalled \<Rightarrow> ([PlayCalled i (audio_url segment)], Suspended))"

definition playAudioSequentially :: "(nat \<Rightarrow> clip_outcome) \<Rightarrow> audio_segment list
    \<Rightarrow> play_event list \<times> play_result" where
  "playAudioSequentially env audioSegments = play_from 0 env audioSegments"

text \<open>The positions and locators handed to \<^verbatim>\<open>play()\<close>, in the order of the calls.\<close>

fun started :: "play_event list \<Rightarrow> (nat \<times> string) list" where
  "started [] = []"
| "started (PlayCalled i u # tr) = (i, u) # started tr"
| "started (ClipEnded i # tr) = started tr"
| "started (ClipFailed i # tr) = started tr"

fun ended_count :: "play_event list \<Rightarrow> nat" where
  "ended_count [] = 0"
| "ended_count (ClipEnded i # tr) = Suc (ended_count tr)"
| "ended_count (PlayCalled i u # tr) = ended_count tr"
| "ended_count (ClipFailed i # tr) = ended_count tr"

text \<open>
  No overlap: every clip that was started has ended or failed before the next
  \<^verbatim>\<open>play()\<close>; only the last started clip may still be open.
\<close>

fun no_overlap :: "play_event list \<Rightarrow> bool" where
  "no_overlap [] = True"
| "no_overlap [PlayCalled i u] = True"
| "no_overlap (PlayCalled i u # ClipEnded j # tr) = (i = j \<and> no_overlap tr)"
| "no_overlap (PlayCalled i u # ClipFailed j # tr) = (i = j \<and> no_overlap tr)"
| "no_overlap tr = False"

definition clip_fails :: "clip_outcome \<Rightarrow> bool" where
  "clip_fails out = (out = LoadError \<or> out = PlayRejected)"

fun indexed_from :: "nat \<Rightarrow> 'a list \<Rightarrow> (nat \<times> 'a) list" where
  "indexed_from i [] = []"
| "indexed_from i (x # xs) = (i, x) # indexed_from (Suc i) xs"

subsection \<open>Text constants\<close>

text \<open>The script's text outside ASCII, as UTF-8 bytes.\<close>

definition flag_fr :: string where
  "flag_fr = [CHR 0xF0, CHR 0x9F, CHR 0x87, CHR 0xAB, CHR 0xF0, CHR 0x9F, CHR 0x87, CHR 0xB7]"

definition flag_ru :: string where
  "flag_ru = [CHR 0xF0, CHR 0x9F, CHR 0x87, CHR 0xB7, CHR 0xF0, CHR 0x9F, CHR 0x87, CHR 0xBA]"

definition emoji_bulb :: string where
  "emoji_bulb = [CHR 0xF0, CHR 0x9F, CHR 0x92, CHR 0xA1]"

definition emoji_wave :: string where
  "emoji_wave = [CHR 0xF0, CHR 0x9F, CHR 0x91, CHR 0x8B]"

definition emoji_target :: string where
  "emoji_target = [CHR 0xF0, CHR 0x9F, CHR 0x8E, CHR 0xAF]"

definition emoji_thumb :: string where
  "emoji_thumb = [CHR 0xF0, CHR 0x9F, CHR 0x91, CHR 0x8D]"

definition emoji_again :: string where
  "emoji_again = [CHR 0xF0, CHR 0x9F, CHR 0x94, CHR 0x84]"

definition emoji_sparkles :: string where
  "emoji_sparkles = [CHR 0xE2, CHR 0x9C, CHR 0xA8]"

definition emoji_note :: string where
  "emoji_note = [CHR 0xF0, CHR 0x9F, CHR 0x8E, CHR 0xB5]"

definition emoji_stopwatch :: string where
  "emoji_stopwatch = [CHR 0xE2, CHR 0x8F, CHR 0xB1, CHR 0xEF, CHR 0xB8, CHR 0x8F]"

definition emoji_hourglass :: string where
  "emoji_hourglass = [CHR 0xE2, CHR 0x8F, CHR 0xB3]"

definition check_mark :: string where
  "check_mark = [CHR 0xE2, CHR 0x9C, CHR 0x93]"

definition e_acute :: string where
  "e_acute = [CHR 0xC3, CHR 0xA9]"

definition e_circumflex :: string where
  "e_circumflex = [CHR 0xC3, CHR 0xAA]"

definition u_circumflex :: string where
  "u_circumflex = [CHR 0xC3, CHR 0xBB]"

definition name_francais :: string where
  "name_francais = ''Fran'' @ [CHR 0xC3, CHR 0xA7] @ ''ais''"

definition name_russkij :: string where
  "name_russkij = [CHR 0xD0, CHR 0xA0, CHR 0xD1, CHR 0x83, CHR 0xD1, CHR 0x81, CHR 0xD1, CHR 0x81,
     CHR 0xD0, CHR 0xBA, CHR 0xD0, CHR 0xB8, CHR 0xD0, CHR 0xB9]"

subsection \<open>Backend payloads\<close>

text \<open>
  The JSON of \<^verbatim>\<open>/start\<close> and \<^verbatim>\<open>/chat\<close> as the script reads it. A field that may be
  missing is an option; a number is its exact value.
\<close>

record segment =
  lang :: string
  s_text :: string

record word_score =
  word :: string
  w_score :: "rat option"

record prosody =
  average_pitch_hz :: "rat option"
  speech_rate_wps :: "rat option"
  duration_s :: "rat option"

record pronunciation =
  score :: "rat option"
  words :: "word_score list option"
  prosody :: "prosody option"
  feedback :: "string option"

record user_analysis =
  is_correct :: bool
  corrected_text :: "string option"
  explanation :: "string option"

record start_data =
  session_id :: "string option"
  response_segments :: "segment list option"
  start_audio_segments :: "audio_segment list option"

record chat_data =
  user_text :: string
  pronunciation :: "pronunciation option"
  user_analysis :: "user_analysis option"
  segments :: "segment list option"
  audio_segments :: "audio_segment list option"

text \<open>
  How a \<^verbatim>\<open>fetch\<close> followed by \<^verbatim>\<open>response.json()\<close> settles: the request fails, the
  status is not a success, the body is not JSON, or the data arrive.
\<close>

datatype 'a fetched = NetworkFailure | HttpError | JsonFailure | Response 'a

text \<open>JavaScript truthiness of an optional number and of an optional string.\<close>

definition truthy_num :: "rat option \<Rightarrow> bool" where
  "truthy_num v = (case v of None \<Rightarrow> False | Some x \<Rightarrow> x \<noteq> 0)"

definition truthy_str :: "string option \<Rightarrow> bool" where
  "truthy_str v = (case v of None \<Rightarrow> False | Some x \<Rightarrow> x \<noteq> [])"

text \<open>\<^verbatim>\<open>v || 0\<close> on an optional number.\<close>

definition or_zero :: "rat option \<Rightarrow> rat" where
  "or_zero v = (case v of None \<Rightarrow> 0 | Some x \<Rightarrow> (if x \<noteq> 0 then x else 0))"

subsection \<open>Number formatting\<close>

fun digits :: "nat \<Rightarrow> string" where
  "digits n = (if n < 10 then [char_of (48 + n)] else digits (n div 10) @ [char_of (48 + n mod 10)])"

declare digits.simps [simp del]

text \<open>
  \<^verbatim>\<open>Number.prototype.toFixed(d)\<close>: the sign, then the integer nearest to
  \<open>\<bar>x\<bar> \<cdot> 10\<^sup>d\<close> (the larger one at a tie) written with \<open>d\<close> decimals. From
  \<open>10\<^sup>2\<^sup>1\<close> on the platform switches to exponent notation, which is not
  reproduced here; scores are on a scale from 0 to 100.
\<close>

definition toFixed :: "nat \<Rightarrow> rat \<Rightarrow> string" where
  "toFixed d x =
     (let n = nat \<lfloor>\<bar>x\<bar> * 10 ^ d + 1 / 2\<rfloor>;
          m = digits n;
          padded = (if length m \<le> d then replicate (Suc d - length m) CHR ''0'' @ m else m);
          k = length padded - d
      in (if x < 0 then ''-'' else '''') @
         (if d = 0 then padded else take k padded @ ''.'' @ drop k padded))"

subsection \<open>The document\<close>

text \<open>
  An element has a tag, a class list and a content: text, markup assigned through
  \<^verbatim>\<open>innerHTML\<close>, or child elements. Markup is kept as the pieces of the template
  that produced it; a number interpolated without \<^verbatim>\<open>toFixed\<close> is kept as the
  number. Line breaks and indentation of the templates are left out.
\<close>

datatype html = Html string | HtmlNum rat

datatype element = Element (tag: string) (classList: "string list") (content: content)
  and content = TextContent string | InnerHTML "html list" | Children "element list"

definition classList_add :: "string \<Rightarrow> string list \<Rightarrow> string list" where
  "classList_add c cs = (if c \<in> set cs then cs else cs @ [c])"

definition classList_remove :: "string \<Rightarrow> string list \<Rightarrow> string list" where
  "classList_remove c cs = removeAll c cs"

definition classList_toggle :: "string \<Rightarrow> string list \<Rightarrow> string list" where
  "classList_toggle c cs = (if c \<in> set cs then removeAll c cs else cs @ [c])"

text \<open>
  The element \<^verbatim>\<open>addMessage(text, sender, isPlaceholder, isHtml)\<close> creates.
\<close>

definition message_div :: "string \<Rightarrow> string \<Rightarrow> bool \<Rightarrow> bool \<Rightarrow> element" where
  "message_div msg sender isPlaceholder isHtml =
     Element ''div''
       (let cs = classList_add sender (classList_add ''message'' [])
        in if isPlaceholder then classList_add ''placeholder'' cs else cs)
       (if isHtml then InnerHTML [Html msg] else TextContent msg)"

text \<open>
  \<^verbatim>\<open>document.querySelector('.message.user.placeholder')\<close> finds the first element
  carrying the three classes; only entries of the history carry \<^verbatim>\<open>message\<close>.
\<close>

definition is_placeholder :: "element \<Rightarrow> bool" where
  "is_placeholder el =
     (''message'' \<in> set (classList el) \<and> ''user'' \<in> set (classList el) \<and>
      ''placeholder'' \<in> set (classList el))"

fun remove_first :: "('a \<Rightarrow> bool) \<Rightarrow> 'a list \<Rightarrow> 'a list" where
  "remove_first P [] = []"
| "remove_first P (x # xs) = (if P x then xs else x # remove_first P xs)"

subsection \<open>Segment rendering (newest revision)\<close>

text \<open>
  The body of the \<^verbatim>\<open>forEach\<close> over the segments, the same text in
  \<^verbatim>\<open>startSession\<close> (lines 46-73) and in \<^verbatim>\<open>sendAudio\<close> (lines 203-232):
  \<^verbatim>\<open>
  const langFlag = segment.lang === 'fr' ? FR : (segment.lang === 'ru' ? RU : '');
  const isNative = segment.lang === sourceLang;
  const segDiv = document.createElement('div');
  segDiv.classList.add('segment-block');
  if (isNative) {
      toggleBtn (button.tip-toggle, innerHTML = BULB Traduction (langFlag),
                 onclick toggles 'visible' on contentDiv)
      contentDiv (div.hidden-content, textContent = segment.text)
      segDiv.appendChild(toggleBtn); segDiv.appendChild(contentDiv);
  } else {
      segDiv.textContent = langFlag + ' ' + segment.text;
      segDiv.classList.add('target-lang-text');
  }
  responseContainer.appendChild(segDiv);
  \<close>
\<close>

definition langFlag :: "string \<Rightarrow> string" where
  "langFlag l = (if l = ''fr'' then flag_fr else (if l = ''ru'' then flag_ru else ''''))"

definition isNative :: "string \<Rightarrow> segment \<Rightarrow> bool" where
  "isNative sourceLang segment = (lang segment = sourceLang)"

definition segDiv :: "string \<Rightarrow> segment \<Rightarrow> element" where
  "segDiv sourceLang segment =
     (if isNative sourceLang segment then
        Element ''div'' (classList_add ''segment-block'' [])
          (Children
            [Element ''button'' (classList_add ''tip-toggle'' [])
               (InnerHTML [Html (emoji_bulb @ '' Traduction ('' @ langFlag (lang segment) @ '')'')]),
             Element ''div'' (classList_add ''hidden-content'' [])
               (TextContent (s_text segment))])
      else
        Element ''div''
          (classList_add ''target-lang-text'' (classList_add ''segment-block'' []))
          (TextContent (langFlag (lang segment) @ '' '' @ s_text segment)))"

definition responseContainer :: "string \<Rightarrow> segment list \<Rightarrow> element" where
  "responseContainer sourceLang segs =
     Element ''div'' (classList_add ''ai'' (classList_add ''message'' []))
       (Children (map (segDiv sourceLang) segs))"

text \<open>
  The click handler of a tip's button toggles the class \<^verbatim>\<open>visible\<close> on the
  content element beside it.
\<close>

fun toggle_click :: "element \<Rightarrow> element" where
  "toggle_click (Element t cs (Children [btn, Element t' cs' c'])) =
     Element t cs (Children [btn, Element t' (classList_toggle ''visible'' cs') c'])"
| "toggle_click el = el"

text \<open>
  The style sheet is not part of the sources. Modelled from the spec: an element of
  class \<^verbatim>\<open>hidden-content\<close> is collapsed until it also carries \<^verbatim>\<open>visible\<close>.
\<close>

definition collapsed :: "string list \<Rightarrow> bool" where
  "collapsed cs = (''hidden-content'' \<in> set cs \<and> ''visible'' \<notin> set cs)"

fun shown :: "element \<Rightarrow> content list" where
  "shown (Element t cs (Children es)) = (if collapsed cs then [] else concat (map shown es))"
| "shown (Element t cs c) = (if collapsed cs then [] else [c])"

fun has_toggle :: "element \<Rightarrow> bool" where
  "has_toggle (Element t cs (Children es)) =
     (''tip-toggle'' \<in> set cs \<or> list_ex has_toggle es)"
| "has_toggle (Element t cs c) = (''tip-toggle'' \<in> set cs)"

fun has_collapsed :: "element \<Rightarrow> bool" where
  "has_collapsed (Element t cs (Children es)) = (collapsed cs \<or> list_ex has_collapsed es)"
| "has_collapsed (Element t cs c) = collapsed cs"

text \<open>A segment is visible at once when no part of its block is collapsed.\<close>

definition visible_immediately :: "string \<Rightarrow> segment \<Rightarrow> bool" where
  "visible_immediately sourceLang segment = (\<not> has_collapsed (segDiv sourceLang segment))"

text \<open>
  A click on the toggle of the \<open>j\<close>-th block of a rendered response; a block without
  a toggle has no handler.
\<close>

fun toggle_tip :: "nat \<Rightarrow> element \<Rightarrow> element" where
  "toggle_tip j (Element t cs (Children es)) =
     Element t cs (Children (if j < length es then es[j := toggle_click (es ! j)] else es))"
| "toggle_tip j el = el"

text \<open>An element with the class \<^verbatim>\<open>visible\<close> taken off wherever it stands.\<close>

fun without_visible :: "element \<Rightarrow> element" where
  "without_visible (Element t cs (Children es)) =
     Element t (removeAll ''visible'' cs) (Children (map without_visible es))"
| "without_visible (Element t cs c) = Element t (removeAll ''visible'' cs) c"

subsection \<open>Feedback panels\<close>

text \<open>
  \<^verbatim>\<open>displayPronunciationFeedback\<close> (lines 281-333; the same text in
  \<^verbatim>\<open>src/static/app.js\<close>, lines 148-200): the markup assigned to the panel.
\<close>

definition scoreClass :: "rat \<Rightarrow> string" where
  "scoreClass sc = (if sc \<ge> 80 then ''excellent'' else if sc \<ge> 60 then ''good'' else ''needs-work'')"

definition scoreEmoji :: "rat \<Rightarrow> string" where
  "scoreEmoji sc = (if sc \<ge> 80 then emoji_target else if sc \<ge> 60 then emoji_thumb else emoji_again)"

definition wordClass :: "rat \<Rightarrow> string" where
  "wordClass ws = (if ws \<ge> 80 then ''word-good'' else if ws \<ge> 60 then ''word-ok'' else ''word-bad'')"

definition score_html :: "rat \<Rightarrow> html list" where
  "score_html sc =
     [Html (''<div class=\"pronunciation-header\"><h4>'' @ scoreEmoji sc @ '' Prononciation: '' @
            toFixed 1 sc @ ''%</h4></div>''),
      Html (''<div class=\"score-bar '' @ scoreClass sc @ ''\"><div class=\"score-fill\" style=\"width: ''),
      HtmlNum sc,
      Html ''%\"></div></div>'']"

definition word_html :: "word_score \<Rightarrow> html list" where
  "word_html w =
     [Html (''<span class=\"word-badge '' @ wordClass (or_zero (w_score w)) @ ''\" title=\"Score: ''),
      HtmlNum (or_zero (w_score w)),
      Html (''%\">'' @ word w @ ''</span>'')]"

definition words_html :: "word_score list option \<Rightarrow> html list" where
  "words_html ws =
     (case ws of
        None \<Rightarrow> []
      | Some l \<Rightarrow>
          (if length l > 0
           then [Html ''<div class=\"words-analysis\">''] @ concat (map word_html l) @ [Html ''</div>'']
           else []))"

definition prosody_html :: "prosody option \<Rightarrow> html list" where
  "prosody_html po =
     (case po of
        None \<Rightarrow> []
      | Some p \<Rightarrow>
          [Html ''<div class=\"prosody-metrics\">''] @
          (if truthy_num (average_pitch_hz p)
           then [Html (''<div class=\"metric\">'' @ emoji_note @ '' Pitch: '' @
                       toFixed 0 (or_zero (average_pitch_hz p)) @ '' Hz</div>'')]
           else []) @
          (if truthy_num (speech_rate_wps p)
           then [Html (''<div class=\"metric\">'' @ emoji_stopwatch @ '' Vitesse: '' @
                       toFixed 1 (or_zero (speech_rate_wps p)) @ '' mots/s</div>'')]
           else []) @
          (if truthy_num (duration_s p)
           then [Html (''<div class=\"metric\">'' @ emoji_hourglass @ '' Dur'' @ e_acute @ ''e: '' @
                       toFixed 1 (or_zero (duration_s p)) @ ''s</div>'')]
           else []) @
          [Html ''</div>''])"

definition feedback_html :: "string option \<Rightarrow> html list" where
  "feedback_html f =
     (case f of
        None \<Rightarrow> []
      | Some m \<Rightarrow> (if m \<noteq> [] then [Html (''<div class=\"feedback-message\">'' @ m @ ''</div>'')] else []))"

definition pronunciation_panel :: "pronunciation \<Rightarrow> element" where
  "pronunciation_panel p =
     Element ''div'' (classList_add ''pronunciation-panel'' [])
       (InnerHTML
          (score_html (or_zero (score p)) @ words_html (words p) @ prosody_html (prosody p) @
           feedback_html (feedback p)))"

text \<open>\<^verbatim>\<open>displayCorrection\<close> (lines 335-381): the markup of the correction panel.\<close>

definition correction_html :: "user_analysis \<Rightarrow> html list" where
  "correction_html a =
     [Html (''<div class=\"correction-header '' @ (if is_correct a then ''correct'' else ''incorrect'') @
            ''\"><span class=\"icon\">'' @ (if is_correct a then emoji_sparkles else emoji_bulb) @
            ''</span><span class=\"title\">'' @ (if is_correct a then ''Parfait !'' else ''Correction'') @
            ''</span></div>''),
      Html ''<div class=\"correction-body\">''] @
     (if \<not> is_correct a \<and> truthy_str (corrected_text a)
      then [Html (''<div class=\"correction-text\"><span class=\"label\">Tu aurais d'' @ u_circumflex @
                  '' dire :</span><span class=\"text\">\"'' @
                  (case corrected_text a of Some c \<Rightarrow> c | None \<Rightarrow> '''') @ ''\"</span></div>'')]
      else []) @
     (if truthy_str (explanation a)
      then [Html (''<div class=\"correction-explanation\">'' @
                  (case explanation a of Some x \<Rightarrow> x | None \<Rightarrow> '''') @ ''</div>'')]
      else []) @
     [Html ''</div>'']"

definition correction_panel :: "user_analysis \<Rightarrow> element" where
  "correction_panel a =
     Element ''div'' (classList_add ''correction-panel'' []) (InnerHTML (correction_html a))"

subsection \<open>The page's state\<close>

text \<open>
  The script's globals (\<^verbatim>\<open>mediaRecorder\<close>, \<^verbatim>\<open>audioChunks\<close>,
  \<^verbatim>\<open>currentSessionId\<close>), the recorder objects it created, the parts of the document
  it reads and writes, and what it asked of the platform: requests sent, calls
  suspended at \<^verbatim>\<open>await fetch\<close> (each with the \<^verbatim>\<open>sourceLang\<close> it captured),
  alerts shown and playback events.
\<close>

type_synonym chunk = nat

datatype recorder_state = Inactive | Recording

datatype mic = NoMediaDevices | AccessDenied | Granted

datatype field = Plain string | Blob "chunk list"

record request =
  endpoint :: string
  form :: "(string \<times> field) list"

datatype call = StartCall string | ChatCall string

record control =
  c_value :: string
  c_disabled :: bool

record app_state =
  mediaRecorder :: "nat option"
  audioChunks :: "chunk list"
  currentSessionId :: "string option"
  recorders :: "recorder_state list"
  statusText :: string
  recordBtn_classes :: "string list"
  chatHistory :: "element list"
  lang_checked :: "string option"
  lang_disabled :: bool
  level_select :: "control option"
  api_version_select :: "string option"
  startBtn_disabled :: bool
  startBtn_classes :: "string list"
  fetch_log :: "request list"
  pending :: "call list"
  alerts :: "string list"
  played :: "play_event list"

definition addMessage :: "string \<Rightarrow> string \<Rightarrow> bool \<Rightarrow> bool \<Rightarrow> app_state \<Rightarrow> app_state" where
  "addMessage msg sender isPlaceholder isHtml s =
     s\<lparr>chatHistory := chatHistory s @ [message_div msg sender isPlaceholder isHtml]\<rparr>"

definition remove_placeholder :: "app_state \<Rightarrow> app_state" where
  "remove_placeholder s = s\<lparr>chatHistory := remove_first is_placeholder (chatHistory s)\<rparr>"

definition displayPronunciationFeedback :: "pronunciation \<Rightarrow> app_state \<Rightarrow> app_state" where
  "displayPronunciationFeedback p s = s\<lparr>chatHistory := chatHistory s @ [pronunciation_panel p]\<rparr>"

definition displayCorrection :: "user_analysis \<Rightarrow> app_state \<Rightarrow> app_state" where
  "displayCorrection a s =
     (if \<not> truthy_str (corrected_text a) \<and> \<not> truthy_str (explanation a) then s
      else s\<lparr>chatHistory := chatHistory s @ [correction_panel a]\<rparr>)"

subsection \<open>Capture controller\<close>

text \<open>
  \<^verbatim>\<open>
  async function startRecording(e) {
      e.preventDefault();
      if (!navigator.mediaDevices || !navigator.mediaDevices.getUserMedia) {
          alert("Votre navigateur ne supporte pas l'enregistrement audio.");
          return;
      }
      try {
          const stream = await navigator.mediaDevices.getUserMedia({ audio: true });
          mediaRecorder = new MediaRecorder(stream);
          audioChunks = [];
          mediaRecorder.ondataavailable = event => { audioChunks.push(event.data); };
          mediaRecorder.onstop = sendAudio;
          mediaRecorder.start();
          recordBtn.classList.add('recording');
          statusText.textContent = "Enregistrement...";
      } catch (err) {
          alert("Impossible d'acceder au micro.");
      }
  }
  \<close>
  The same text in all four revisions. The platform's answer to the request for
  the microphone is the parameter.
\<close>

definition startRecording :: "mic \<Rightarrow> app_state \<Rightarrow> app_state" where
  "startRecording m s =
     (case m of
        NoMediaDevices \<Rightarrow>
          s\<lparr>alerts := alerts s @
                [''Votre navigateur ne supporte pas l'' @ [CHR 0x27] @ ''enregistrement audio.'']\<rparr>
      | AccessDenied \<Rightarrow>
          s\<lparr>alerts := alerts s @
                [''Impossible d'' @ [CHR 0x27] @ ''acc'' @ e_acute @ ''der au micro.'']\<rparr>
      | Granted \<Rightarrow>
          s\<lparr>recorders := recorders s @ [Recording],
            mediaRecorder := Some (length (recorders s)),
            audioChunks := [],
            recordBtn_classes := classList_add ''recording'' (recordBtn_classes s),
            statusText := ''Enregistrement...''\<rparr>)"

text \<open>
  \<^verbatim>\<open>
  function stopRecording(e) {
      e.preventDefault();
      if (mediaRecorder && mediaRecorder.state !== 'inactive') {
          mediaRecorder.stop();
          recordBtn.classList.remove('recording');
          statusText.textContent = "Traitement...";
      }
  }
  \<close>
\<close>

definition recorder_active :: "app_state \<Rightarrow> nat \<Rightarrow> bool" where
  "recorder_active s r = (r < length (recorders s) \<and> recorders s ! r \<noteq> Inactive)"

definition stopRecording :: "app_state \<Rightarrow> app_state" where
  "stopRecording s =
     (case mediaRecorder s of
        None \<Rightarrow> s
      | Some r \<Rightarrow>
          (if recorder_active s r
           then s\<lparr>recorders := (recorders s)[r := Inactive],
                  recordBtn_classes := classList_remove ''recording'' (recordBtn_classes s),
                  statusText := ''Traitement...''\<rparr>
           else s))"

text \<open>The handler \<^verbatim>\<open>ondataavailable\<close> of any recorder pushes onto the global array.\<close>

definition ondataavailable :: "chunk \<Rightarrow> app_state \<Rightarrow> app_state" where
  "ondataavailable c s = s\<lparr>audioChunks := audioChunks s @ [c]\<rparr>"

subsection \<open>Turn exchange: \<^verbatim>\<open>sendAudio\<close>\<close>

text \<open>
  \<^verbatim>\<open>sendAudio\<close> (lines 140-253) runs in two parts. Up to \<^verbatim>\<open>await fetch('/chat')\<close>
  it builds the form from the buffered chunks and the controls, appends the
  placeholder \<^verbatim>\<open>addMessage("...", "user", true)\<close> and sends the request. With no
  language radio checked, \<^verbatim>\<open>querySelector(...).value\<close> throws before anything is
  done.
\<close>

definition chat_form :: "string \<Rightarrow> app_state \<Rightarrow> (string \<times> field) list" where
  "chat_form selectedLang s =
     [(''audio'', Blob (audioChunks s)),
      (''source_lang'', Plain selectedLang),
      (''target_lang'', Plain (if selectedLang = ''fr'' then ''ru'' else ''fr''))] @
     (case api_version_select s of
        None \<Rightarrow> []
      | Some v \<Rightarrow> [(''api_version'', Plain (if v \<noteq> [] then v else ''v1''))]) @
     [(''level'', Plain (case level_select s of None \<Rightarrow> ''A1'' | Some c \<Rightarrow> c_value c))]"

definition sendAudio_request :: "app_state \<Rightarrow> app_state" where
  "sendAudio_request s =
     (case lang_checked s of
        None \<Rightarrow> s
      | Some selectedLang \<Rightarrow>
          (addMessage ''...'' ''user'' True False s)
            \<lparr>fetch_log := fetch_log s @ [\<lparr>endpoint = ''/chat'', form = chat_form selectedLang s\<rparr>],
             pending := pending s @ [ChatCall selectedLang]\<rparr>)"

text \<open>
  The \<^verbatim>\<open>catch\<close> block (lines 245-252):
  \<^verbatim>\<open>
  statusText.textContent = "Erreur";
  addMessage("Erreur lors du traitement.", "system");
  const placeholder = document.querySelector('.message.user.placeholder');
  if (placeholder) placeholder.remove();
  \<close>
\<close>

definition sendAudio_catch :: "app_state \<Rightarrow> app_state" where
  "sendAudio_catch s =
     remove_placeholder
       (addMessage ''Erreur lors du traitement.'' ''system'' False False (s\<lparr>statusText := ''Erreur''\<rparr>))"

text \<open>
  The rendering of a response (lines 177-236): placeholder removed, user text,
  pronunciation panel, correction panel, segments.
\<close>

definition display_segments :: "string \<Rightarrow> segment list option \<Rightarrow> app_state \<Rightarrow> app_state" where
  "display_segments sourceLang sg s =
     (case sg of
        None \<Rightarrow> s
      | Some segs \<Rightarrow>
          (if length segs > 0
           then s\<lparr>chatHistory := chatHistory s @ [responseContainer sourceLang segs]\<rparr>
           else s))"

definition render_turn :: "string \<Rightarrow> chat_data \<Rightarrow> app_state \<Rightarrow> app_state" where
  "render_turn sourceLang data s =
     (let s1 = remove_placeholder s;
          s2 = addMessage (user_text data) ''user'' False False s1;
          s3 = (case pronunciation data of
                  None \<Rightarrow> s2 | Some p \<Rightarrow> displayPronunciationFeedback p s2);
          s4 = (case user_analysis data of
                  None \<Rightarrow> s3 | Some a \<Rightarrow> displayCorrection a s3)
      in display_segments sourceLang (segments data) s4)"

text \<open>
  The rest of \<^verbatim>\<open>sendAudio\<close> once the request has settled (lines 173-252). A
  failure of the request, of the status or of the JSON body, and a rejected
  playback, all reach the \<^verbatim>\<open>catch\<close> block; a playback that never settles leaves
  the function suspended.
\<close>

definition sendAudio_resume ::
    "string \<Rightarrow> chat_data fetched \<Rightarrow> (nat \<Rightarrow> clip_outcome) \<Rightarrow> app_state \<Rightarrow> app_state" where
  "sendAudio_resume sourceLang fr clips s =
     (case fr of
        Response data \<Rightarrow>
          (let s5 = render_turn sourceLang data s in
           case audio_segments data of
             None \<Rightarrow> s5\<lparr>statusText := ''Pr'' @ e_circumflex @ ''t''\<rparr>
           | Some segs \<Rightarrow>
               (if length segs > 0
                then (let s6 = s5\<lparr>played := played s5 @ fst (playAudioSequentially clips segs)\<rparr> in
                      case snd (playAudioSequentially clips segs) of
                        Completed \<Rightarrow> s6\<lparr>statusText := ''Pr'' @ e_circumflex @ ''t''\<rparr>
                      | Rejected \<Rightarrow> sendAudio_catch s6
                      | Suspended \<Rightarrow> s6)
                else s5\<lparr>statusText := ''Pr'' @ e_circumflex @ ''t''\<rparr>))
      | _ \<Rightarrow> sendAudio_catch s)"

subsection \<open>Session start: \<^verbatim>\<open>startSession\<close>\<close>

text \<open>
  \<^verbatim>\<open>startSession\<close> (lines 18-102) up to \<^verbatim>\<open>await fetch('/start')\<close>: the status
  text, the form from the controls, the request. Reading \<^verbatim>\<open>.value\<close> of a missing
  radio or level control throws before the \<^verbatim>\<open>try\<close>.
\<close>

definition start_form :: "string \<Rightarrow> string \<Rightarrow> (string \<times> field) list" where
  "start_form selectedLang level =
     [(''source_lang'', Plain selectedLang),
      (''target_lang'', Plain (if selectedLang = ''fr'' then ''ru'' else ''fr'')),
      (''level'', Plain level)]"

definition startSession_request :: "app_state \<Rightarrow> app_state" where
  "startSession_request s =
     (let s0 = s\<lparr>statusText := ''Starting session...''\<rparr> in
      case lang_checked s of
        None \<Rightarrow> s0
      | Some selectedLang \<Rightarrow>
          (case level_select s of
             None \<Rightarrow> s0
           | Some c \<Rightarrow>
               s0\<lparr>fetch_log := fetch_log s @
                      [\<lparr>endpoint = ''/start'', form = start_form selectedLang (c_value c)\<rparr>],
                  pending := pending s @ [StartCall selectedLang]\<rparr>))"

text \<open>
  The greeting (lines 41-80), then
  \<^verbatim>\<open>
  currentSessionId = data.session_id;
  document.getElementById('level-select').disabled = true;
  document.querySelectorAll('input[name="lang"]').forEach(el => el.disabled = true);
  startBtn.disabled = true;
  startBtn.classList.add('disabled');
  \<close>
\<close>

definition render_greeting :: "string \<Rightarrow> start_data \<Rightarrow> app_state \<Rightarrow> app_state" where
  "render_greeting sourceLang data s =
     (case response_segments data of
        Some segs \<Rightarrow> s\<lparr>chatHistory := chatHistory s @ [responseContainer sourceLang segs]\<rparr>
      | None \<Rightarrow> addMessage (emoji_wave @ '' (Welcome)'') ''ai'' False False s)"

definition save_session :: "start_data \<Rightarrow> app_state \<Rightarrow> app_state" where
  "save_session data s =
     s\<lparr>currentSessionId := session_id data,
       level_select := map_option (\<lambda>c. c\<lparr>c_disabled := True\<rparr>) (level_select s),
       lang_disabled := True,
       startBtn_disabled := True,
       startBtn_classes := classList_add ''disabled'' (startBtn_classes s)\<rparr>"

definition startSession_resume ::
    "string \<Rightarrow> start_data fetched \<Rightarrow> (nat \<Rightarrow> clip_outcome) \<Rightarrow> app_state \<Rightarrow> app_state" where
  "startSession_resume sourceLang fr clips s =
     (case fr of
        Response data \<Rightarrow>
          (let s1 = save_session data (render_greeting sourceLang data s) in
           case start_audio_segments data of
             None \<Rightarrow> s1\<lparr>statusText := ''Your turn (Press Mic)''\<rparr>
           | Some segs \<Rightarrow>
               (let s2 = s1\<lparr>played := played s1 @ fst (playAudioSequentially clips segs)\<rparr> in
                case snd (playAudioSequentially clips segs) of
                  Completed \<Rightarrow> s2\<lparr>statusText := ''Your turn (Press Mic)''\<rparr>
                | Rejected \<Rightarrow> s2\<lparr>statusText := ''Error starting.''\<rparr>
                | Suspended \<Rightarrow> s2))
      | _ \<Rightarrow> s\<lparr>statusText := ''Error starting.''\<rparr>)"

subsection \<open>Events\<close>

text \<open>
  What can happen to the page: the listeners the script registers (start button,
  record button, the toggle of a tip), the settling of a suspended call (chosen by
  its position among the suspended ones), the recorder's events, and the user
  changing a parameter control. A disabled control neither changes nor fires
  \<^verbatim>\<open>click\<close>. The playback inside a resumed call is taken as one step with it.
\<close>

datatype event =
    ClickStart
  | StartSettled nat "start_data fetched" "nat \<Rightarrow> clip_outcome"
  | Press mic
  | Release
  | DataAvailable chunk
  | RecorderStopped
  | ChatSettled nat "chat_data fetched" "nat \<Rightarrow> clip_outcome"
  | PickLang string
  | PickLevel string
  | ToggleTip nat nat

definition drop_nth :: "nat \<Rightarrow> 'a list \<Rightarrow> 'a list" where
  "drop_nth i xs = take i xs @ drop (Suc i) xs"

fun step :: "event \<Rightarrow> app_state \<Rightarrow> app_state" where
  "step ClickStart s = (if startBtn_disabled s then s else startSession_request s)"
| "step (StartSettled i fr clips) s =
     (if i < length (pending s)
      then (case pending s ! i of
              StartCall sourceLang \<Rightarrow>
                startSession_resume sourceLang fr clips (s\<lparr>pending := drop_nth i (pending s)\<rparr>)
            | ChatCall sourceLang \<Rightarrow> s)
      else s)"
| "step (Press m) s = startRecording m s"
| "step Release s = stopRecording s"
| "step (DataAvailable c) s = ondataavailable c s"
| "step RecorderStopped s = sendAudio_request s"
| "step (ChatSettled i fr clips) s =
     (if i < length (pending s)
      then (case pending s ! i of
              ChatCall sourceLang \<Rightarrow>
                sendAudio_resume sourceLang fr clips (s\<lparr>pending := drop_nth i (pending s)\<rparr>)
            | StartCall sourceLang \<Rightarrow> s)
      else s)"
| "step (PickLang l) s = (if lang_disabled s then s else s\<lparr>lang_checked := Some l\<rparr>)"
| "step (PickLevel v) s =
     (case level_select s of
        None \<Rightarrow> s
      | Some c \<Rightarrow> (if c_disabled c then s else s\<lparr>level_select := Some (c\<lparr>c_value := v\<rparr>)\<rparr>))"
| "step (ToggleTip i j) s =
     (if i < length (chatHistory s)
      then s\<lparr>chatHistory := (chatHistory s)[i := toggle_tip j (chatHistory s ! i)]\<rparr>
      else s)"

fun run :: "event list \<Rightarrow> app_state \<Rightarrow> app_state" where
  "run [] s = s"
| "run (e # es) s = run es (step e s)"

text \<open>
  A whole call with nothing in between: the request, then the settling of the
  call just suspended.
\<close>

definition startSession ::
    "start_data fetched \<Rightarrow> (nat \<Rightarrow> clip_outcome) \<Rightarrow> app_state \<Rightarrow> app_state" where
  "startSession fr clips s =
     step (StartSettled (length (pending s)) fr clips) (startSession_request s)"

definition sendAudio ::
    "chat_data fetched \<Rightarrow> (nat \<Rightarrow> clip_outcome) \<Rightarrow> app_state \<Rightarrow> app_state" where
  "sendAudio fr clips s =
     step (ChatSettled (length (pending s)) fr clips) (sendAudio_request s)"

text \<open>
  An example of the page as loaded (the markup is not part of the sources): French
  checked, level A1, no version control, nothing recorded or shown.
\<close>

definition initial :: app_state where
  "initial =
     \<lparr>mediaRecorder = None, audioChunks = [], currentSessionId = None, recorders = [],
      statusText = '''', recordBtn_classes = [], chatHistory = [],
      lang_checked = Some ''fr'', lang_disabled = False,
      level_select = Some \<lparr>c_value = ''A1'', c_disabled = False\<rparr>,
      api_version_select = None, startBtn_disabled = False, startBtn_classes = [],
      fetch_log = [], pending = [], alerts = [], played = []\<rparr>"

definition params_locked :: "app_state \<Rightarrow> bool" where
  "params_locked s =
     (lang_disabled s \<and> startBtn_disabled s \<and>
      (case level_select s of None \<Rightarrow> False | Some c \<Rightarrow> c_disabled c))"

definition session_params :: "app_state \<Rightarrow> string option \<times> string option" where
  "session_params s = (lang_checked s, map_option c_value (level_select s))"

text \<open>The entries of the history that are not the placeholder of a pending turn.\<close>

definition settled_entries :: "app_state \<Rightarrow> element list" where
  "settled_entries s = filter (\<lambda>el. \<not> is_placeholder el) (chatHistory s)"

subsection \<open>Older revisions: the rendering blocks of \<^verbatim>\<open>sendAudio\<close>\<close>

text \<open>
  \<^verbatim>\<open>src/static/app.js\<close>, lines 94-103:
  \<^verbatim>\<open>
  if (data.segments && data.segments.length > 0) {
      let combinedMessage = '';
      data.segments.forEach((segment, index) => {
          const langFlag = segment.lang === 'fr' ? FR : RU;
          if (index > 0) combinedMessage += ' ';
          combinedMessage += langFlag + ' ' + segment.text;
      });
      addMessage(combinedMessage, "ai", false, false);
  }
  \<close>
\<close>

definition langFlag_static :: "string \<Rightarrow> string" where
  "langFlag_static l = (if l = ''fr'' then flag_fr else flag_ru)"

fun combinedMessage_static :: "nat \<Rightarrow> string \<Rightarrow> segment list \<Rightarrow> string" where
  "combinedMessage_static index combinedMessage [] = combinedMessage"
| "combinedMessage_static index combinedMessage (segment # rest) =
     combinedMessage_static (Suc index)
       ((if index > 0 then combinedMessage @ '' '' else combinedMessage) @
        langFlag_static (lang segment) @ '' '' @ s_text segment)
       rest"

definition display_segments_static :: "segment list option \<Rightarrow> app_state \<Rightarrow> app_state" where
  "display_segments_static sg s =
     (case sg of
        None \<Rightarrow> s
      | Some segs \<Rightarrow>
          (if length segs > 0
           then addMessage (combinedMessage_static 0 '''' segs) ''ai'' False False s
           else s))"

text \<open>
  \<^verbatim>\<open>src/static/app.js\<close>, lines 297-309:
  \<^verbatim>\<open>
  if (data.correction) {
      addMessage(CHECK + " Correction: " + data.correction, "correction");
  }
  if (data.segments && data.segments.length > 0) {
      data.segments.forEach(segment => {
          const langFlag = segment.lang === 'fr' ? FR : RU;
          const langName = segment.lang === 'fr' ? 'Francais' : 'Russkij';
          addMessage(langFlag + " <strong>" + langName + ":</strong> " + segment.text,
                     "ai", false, true);
      });
  }
  \<close>
\<close>

definition display_correction_static2 :: "string option \<Rightarrow> app_state \<Rightarrow> app_state" where
  "display_correction_static2 correction s =
     (case correction of
        None \<Rightarrow> s
      | Some c \<Rightarrow>
          (if c \<noteq> []
           then addMessage (check_mark @ '' Correction: '' @ c) ''correction'' False False s
           else s))"

definition langFlag_static2 :: "string \<Rightarrow> string" where
  "langFlag_static2 l = (if l = ''fr'' then flag_fr else flag_ru)"

definition langName_static2 :: "string \<Rightarrow> string" where
  "langName_static2 l = (if l = ''fr'' then name_francais else name_russkij)"

fun add_segments_static2 :: "segment list \<Rightarrow> app_state \<Rightarrow> app_state" where
  "add_segments_static2 [] s = s"
| "add_segments_static2 (segment # rest) s =
     add_segments_static2 rest
       (addMessage
          (langFlag_static2 (lang segment) @ '' <strong>'' @ langName_static2 (lang segment) @
           '':</strong> '' @ s_text segment)
          ''ai'' False True s)"

definition display_segments_static2 :: "segment list option \<Rightarrow> app_state \<Rightarrow> app_state" where
  "display_segments_static2 sg s =
     (case sg of
        None \<Rightarrow> s
      | Some segs \<Rightarrow> (if length segs > 0 then add_segments_static2 segs s else s))"

text \<open>
  The oldest revision (\<^verbatim>\<open>src/unnamed/part_000\<close>, lines 465-470):
  \<^verbatim>\<open>
  let aiContent = data.ai_response;
  if (data.correction &&
      data.correction.toLowerCase() !== "aucune correction necessaire") {
      aiContent += '<span class="correction">' + data.correction + '</span>';
  }
  addMessage(aiContent, "ai", false, true);
  \<close>
  (the sentinel is written with \<open>e\<close> acute in the source).

  \<^verbatim>\<open>toLowerCase\<close> on the UTF-8 form: the letters A-Z and the capital letters of
  Latin-1 (U+00C0 to U+00DE without U+00D7, two bytes with \<open>0xC3\<close> first) are
  lowered; every other byte is kept. Capital letters outside Latin-1 are therefore
  not lowered here; none of them lowers to a letter of the sentinel.
\<close>

definition lower_ascii :: "char \<Rightarrow> char" where
  "lower_ascii c =
     (if (65::nat) \<le> of_char c \<and> of_char c \<le> (90::nat) then char_of (of_char c + (32::nat)) else c)"

definition latin1_capital :: "char \<Rightarrow> bool" where
  "latin1_capital d =
     ((128::nat) \<le> of_char d \<and> of_char d \<le> (158::nat) \<and> of_char d \<noteq> (151::nat))"

fun toLowerCase :: "string \<Rightarrow> string" where
  "toLowerCase [] = []"
| "toLowerCase [c] = [lower_ascii c]"
| "toLowerCase (c # d # cs) =
     (if c = CHR 0xC3 \<and> latin1_capital d
      then c # char_of (of_char d + (32::nat)) # toLowerCase cs
      else lower_ascii c # toLowerCase (d # cs))"

definition sentinel :: string where
  "sentinel = ''aucune correction n'' @ e_acute @ ''cessaire''"

definition correction_span_legacy :: "string \<Rightarrow> string" where
  "correction_span_legacy c = ''<span class=\"correction\">'' @ c @ ''</span>''"

definition aiContent_legacy :: "string \<Rightarrow> string option \<Rightarrow> string" where
  "aiContent_legacy ai_response correction =
     (case correction of
        None \<Rightarrow> ai_response
      | Some c \<Rightarrow>
          (if c \<noteq> [] \<and> toLowerCase c \<noteq> sentinel
           then ai_response @ correction_span_legacy c
           else ai_response))"

definition display_ai_legacy :: "string \<Rightarrow> string option \<Rightarrow> app_state \<Rightarrow> app_state" where
  "display_ai_legacy ai_response correction s =
     addMessage (aiContent_legacy ai_response correction) ''ai'' False True s"

subsection \<open>Observations on a state\<close>

text \<open>The number of recorders that are capturing.\<close>

definition capturing :: "app_state \<Rightarrow> nat" where
  "capturing s = length (filter (\<lambda>r. r \<noteq> Inactive) (recorders s))"

text \<open>A request that did not deliver its data.\<close>

fun transport_failure :: "'a fetched \<Rightarrow> bool" where
  "transport_failure (Response data) = False"
| "transport_failure fr = True"

text \<open>The parameter controls: checked language, level control, and what is disabled.\<close>

definition controls :: "app_state \<Rightarrow> string option \<times> bool \<times> control option \<times> bool" where
  "controls s = (lang_checked s, lang_disabled s, level_select s, startBtn_disabled s)"

text \<open>The events at which a suspended call resumes.\<close>

fun is_settle :: "event \<Rightarrow> bool" where
  "is_settle (StartSettled i fr clips) = True"
| "is_settle (ChatSettled i fr clips) = True"
| "is_settle e = False"

fun is_toggle :: "event \<Rightarrow> bool" where
  "is_toggle (ToggleTip i j) = True"
| "is_toggle e = False"

text \<open>
  Two states of the capture controller, reached from the loaded page: recording
  with one chunk buffered, and processing (recorder stopped, upload in flight).
\<close>

definition recording_state :: app_state where
  "recording_state = run [Press Granted, DataAvailable 7] initial"

definition processing_state :: app_state where
  "processing_state = run [Press Granted, DataAvailable 7, Release, RecorderStopped] initial"

subsection \<open>Playback: lemmas\<close>

lemma play_from_no_overlap: "no_overlap (fst (play_from i env segs))"
  by (induction segs arbitrary: i) (auto split: clip_outcome.splits)

lemma play_from_started_prefix:
  "prefix (started (fst (play_from i env segs))) (indexed_from i (map audio_url segs))"
  by (induction segs arbitrary: i) (auto split: clip_outcome.splits)

lemma play_from_all_ended:
  "(\<And>j. i \<le> j \<Longrightarrow> j < i + length segs \<Longrightarrow> env j = Ended) \<Longrightarrow>
   snd (play_from i env segs) = Completed \<and>
   ended_count (fst (play_from i env segs)) = length segs \<and>
   started (fst (play_from i env segs)) = indexed_from i (map audio_url segs)"
proof (induction segs arbitrary: i)
  case Nil
  show ?case by simp
next
  case (Cons seg rest)
  have here: "env i = Ended"
    using Cons.prems [of i] by simp
  have later: "\<And>j. Suc i \<le> j \<Longrightarrow> j < Suc i + length rest \<Longrightarrow> env j = Ended"
    using Cons.prems by simp
  from Cons.IH [OF later] here show ?case by simp
qed

lemma play_from_positions:
  "(j, u) \<in> set (started (fst (play_from i env segs))) \<Longrightarrow> i \<le> j \<and> j < i + length segs"
proof (induction segs arbitrary: i)
  case Nil
  then show ?case by simp
next
  case (Cons seg rest)
  then show ?case
    by (cases "env i") (fastforce split: if_splits)+
qed

lemma play_from_halts:
  "i \<le> k \<Longrightarrow> k < i + length segs \<Longrightarrow> clip_fails (env k) \<Longrightarrow>
   snd (play_from i env segs) \<noteq> Completed \<and>
   (\<forall>j u. (j, u) \<in> set (started (fst (play_from i env segs))) \<longrightarrow> j \<le> k)"
proof (induction segs arbitrary: i)
  case Nil
  then show ?case by simp
next
  case (Cons seg rest)
  show ?case
  proof (cases "i = k")
    case True
    with Cons.prems show ?thesis
      by (auto simp: clip_fails_def)
  next
    case False
    with Cons.prems have "Suc i \<le> k" "k < Suc i + length rest"
      by simp_all
    from Cons.IH [OF this Cons.prems(3)] show ?thesis
      using Cons.prems(1) by (cases "env i") auto
  qed
qed


subsection \<open>Playback: the contract\<close>

text \<open>
  C1. For every list of audio segments and every behaviour of the clips,
  \<^verbatim>\<open>playAudioSequentially\<close> calls \<^verbatim>\<open>play()\<close> on the clips in list order (the calls
  made are an initial part of the list, each at its own position) and no clip is
  started before the previous one has ended or failed. When all \<open>N\<close> clips end, the
  call completes after exactly \<open>N\<close> \<^verbatim>\<open>ended\<close> signals, every clip having been
  started. On the empty list it completes at once with no event. When the clip at
  position \<open>k\<close> fails to load or to start, the call does not complete and no clip
  at a position beyond \<open>k\<close> is ever started.
\<close>

theorem playAudioSequentially_in_order:
  "no_overlap (fst (playAudioSequentially env segs)) \<and>
   prefix (started (fst (playAudioSequentially env segs))) (indexed_from 0 (map audio_url segs)) \<and>
   ((\<forall>j < length segs. env j = Ended) \<longrightarrow>
      snd (playAudioSequentially env segs) = Completed \<and>
      ended_count (fst (playAudioSequentially env segs)) = length segs \<and>
      started (fst (playAudioSequentially env segs)) = indexed_from 0 (map audio_url segs)) \<and>
   playAudioSequentially env [] = ([], Completed) \<and>
   (\<forall>k < length segs. clip_fails (env k) \<longrightarrow>
      snd (playAudioSequentially env segs) \<noteq> Completed \<and>
      (\<forall>j u. (j, u) \<in> set (started (fst (playAudioSequentially env segs))) \<longrightarrow> j \<le> k))"
proof -
  have ordered: "no_overlap (fst (play_from 0 env segs))"
    by (rule play_from_no_overlap)
  have initial_part: "prefix (started (fst (play_from 0 env segs))) (indexed_from 0 (map audio_url segs))"
    by (rule play_from_started_prefix)
  have all_end: "snd (play_from 0 env segs) = Completed \<and>
      ended_count (fst (play_from 0 env segs)) = length segs \<and>
      started (fst (play_from 0 env segs)) = indexed_from 0 (map audio_url segs)"
    if "\<forall>j < length segs. env j = Ended"
    using that play_from_all_ended [of 0 segs env] by simp
  have halts: "snd (play_from 0 env segs) \<noteq> Completed \<and>
      (\<forall>j u. (j, u) \<in> set (started (fst (play_from 0 env segs))) \<longrightarrow> j \<le> k)"
    if "k < length segs" "clip_fails (env k)" for k
    using that play_from_halts [of 0 k segs env] by simp
  show ?thesis
    unfolding playAudioSequentially_def
    using ordered initial_part all_end halts by simp
qed

theorem playAudioSequentially_in_order_witness:
  "snd (playAudioSequentially (\<lambda>i. Ended)
      [\<lparr>a_lang = ''fr'', audio_url = ''/audio/1.mp3''\<rparr>,
       \<lparr>a_lang = ''ru'', audio_url = ''/audio/2.mp3''\<rparr>]) = Completed \<and>
   ended_count (fst (playAudioSequentially (\<lambda>i. Ended)
      [\<lparr>a_lang = ''fr'', audio_url = ''/audio/1.mp3''\<rparr>,
       \<lparr>a_lang = ''ru'', audio_url = ''/audio/2.mp3''\<rparr>])) = 2 \<and>
   clip_fails ((\<lambda>i. if i = 1 then LoadError else Ended) (1::nat)) \<and>
   snd (playAudioSequentially (\<lambda>i. if i = 1 then LoadError else Ended)
      [\<lparr>a_lang = ''fr'', audio_url = ''/audio/1.mp3''\<rparr>,
       \<lparr>a_lang = ''ru'', audio_url = ''/audio/2.mp3''\<rparr>,
       \<lparr>a_lang = ''fr'', audio_url = ''/audio/3.mp3''\<rparr>]) \<noteq> Completed \<and>
   (2, ''/audio/3.mp3'') \<notin> set (started (fst (playAudioSequentially
      (\<lambda>i. if i = 1 then LoadError else Ended)
      [\<lparr>a_lang = ''fr'', audio_url = ''/audio/1.mp3''\<rparr>,
       \<lparr>a_lang = ''ru'', audio_url = ''/audio/2.mp3''\<rparr>,
       \<lparr>a_lang = ''fr'', audio_url = ''/audio/3.mp3''\<rparr>])))"
  using
    playAudioSequentially_in_order [of "\<lambda>i. Ended"
      "[\<lparr>a_lang = ''fr'', audio_url = ''/audio/1.mp3''\<rparr>,
        \<lparr>a_lang = ''ru'', audio_url = ''/audio/2.mp3''\<rparr>]"]
    playAudioSequentially_in_order [of "\<lambda>i. if i = 1 then LoadError else Ended"
      "[\<lparr>a_lang = ''fr'', audio_url = ''/audio/1.mp3''\<rparr>,
        \<lparr>a_lang = ''ru'', audio_url = ''/audio/2.mp3''\<rparr>,
        \<lparr>a_lang = ''fr'', audio_url = ''/audio/3.mp3''\<rparr>]"]
  by (simp add: clip_fails_def playAudioSequentially_def)

subsection \<open>Facts about the text constants and the class lists\<close>

lemma flags_distinct: "flag_fr \<noteq> flag_ru" "flag_ru \<noteq> []" "flag_fr \<noteq> []"
  by (simp_all add: flag_fr_def flag_ru_def)

lemma langFlag_known: "langFlag ''fr'' = flag_fr" "langFlag ''ru'' = flag_ru"
  by (simp_all add: langFlag_def)

lemma langFlag_unrecognized: "l \<noteq> ''fr'' \<Longrightarrow> l \<noteq> ''ru'' \<Longrightarrow> langFlag l = []"
  by (simp add: langFlag_def)

lemma message_classes:
  "classList_add ''segment-block'' [] = [''segment-block'']"
  "classList_add ''tip-toggle'' [] = [''tip-toggle'']"
  "classList_add ''hidden-content'' [] = [''hidden-content'']"
  "classList_add ''target-lang-text'' [''segment-block''] = [''segment-block'', ''target-lang-text'']"
  "classList_add ''ai'' (classList_add ''message'' []) = [''message'', ''ai'']"
  by (simp_all add: classList_add_def)

subsection \<open>Disclosure of a segment\<close>

lemma segDiv_native:
  "lang seg = sourceLang \<Longrightarrow>
   segDiv sourceLang seg =
     Element ''div'' [''segment-block'']
       (Children
         [Element ''button'' [''tip-toggle'']
            (InnerHTML [Html (emoji_bulb @ '' Traduction ('' @ langFlag (lang seg) @ '')'')]),
          Element ''div'' [''hidden-content''] (TextContent (s_text seg))])"
  by (simp add: segDiv_def isNative_def message_classes)

lemma segDiv_other:
  "lang seg \<noteq> sourceLang \<Longrightarrow>
   segDiv sourceLang seg =
     Element ''div'' [''segment-block'', ''target-lang-text'']
       (TextContent (langFlag (lang seg) @ '' '' @ s_text seg))"
  by (simp add: segDiv_def isNative_def message_classes)

lemma shown_native:
  "lang seg = sourceLang \<Longrightarrow>
   shown (segDiv sourceLang seg) =
     [InnerHTML [Html (emoji_bulb @ '' Traduction ('' @ langFlag (lang seg) @ '')'')]]"
  by (simp add: segDiv_native collapsed_def)

lemma shown_native_toggled:
  "lang seg = sourceLang \<Longrightarrow>
   shown (toggle_click (segDiv sourceLang seg)) =
     [InnerHTML [Html (emoji_bulb @ '' Traduction ('' @ langFlag (lang seg) @ '')'')],
      TextContent (s_text seg)]"
  by (simp add: segDiv_native collapsed_def classList_toggle_def)

lemma shown_other:
  "lang seg \<noteq> sourceLang \<Longrightarrow>
   shown (segDiv sourceLang seg) = [TextContent (langFlag (lang seg) @ '' '' @ s_text seg)]"
  by (simp add: segDiv_other collapsed_def)

lemma revealed_native:
  "lang seg = sourceLang \<Longrightarrow> \<not> has_collapsed (toggle_click (segDiv sourceLang seg))"
  by (simp add: segDiv_native collapsed_def classList_toggle_def)

lemma has_toggle_segDiv: "has_toggle (segDiv sourceLang seg) = (lang seg = sourceLang)"
  by (cases "lang seg = sourceLang") (simp_all add: segDiv_native segDiv_other)

lemma responseContainer_blocks:
  "responseContainer sourceLang segs =
     Element ''div'' [''message'', ''ai''] (Children (map (segDiv sourceLang) segs))"
  by (simp add: responseContainer_def message_classes)

text \<open>
  C2. For every segment and every native (source) language, the segment is visible
  at once exactly when its language differs from the native one. A native-language
  segment is rendered as a block holding a \<^verbatim>\<open>tip-toggle\<close> button and a collapsed
  \<^verbatim>\<open>hidden-content\<close> element with the text: only the button's label is shown, and
  one click on the toggle reveals the text. Any other segment is rendered without a
  toggle, its text shown plainly after the language indicator. Both
  \<^verbatim>\<open>startSession\<close> and \<^verbatim>\<open>sendAudio\<close> render a turn's segments by this rule, one
  block per segment.
\<close>

theorem segment_disclosure:
  "(\<not> visible_immediately sourceLang seg) = (lang seg = sourceLang) \<and>
   (lang seg = sourceLang \<longrightarrow>
      has_toggle (segDiv sourceLang seg) \<and>
      shown (segDiv sourceLang seg) =
        [InnerHTML [Html (emoji_bulb @ '' Traduction ('' @ langFlag (lang seg) @ '')'')]] \<and>
      shown (toggle_click (segDiv sourceLang seg)) =
        [InnerHTML [Html (emoji_bulb @ '' Traduction ('' @ langFlag (lang seg) @ '')'')],
         TextContent (s_text seg)] \<and>
      \<not> has_collapsed (toggle_click (segDiv sourceLang seg))) \<and>
   (lang seg \<noteq> sourceLang \<longrightarrow>
      \<not> has_toggle (segDiv sourceLang seg) \<and>
      shown (segDiv sourceLang seg) = [TextContent (langFlag (lang seg) @ '' '' @ s_text seg)]) \<and>
   chatHistory (display_segments sourceLang (Some (seg # segs)) s) =
     chatHistory s @
     [Element ''div'' [''message'', ''ai''] (Children (map (segDiv sourceLang) (seg # segs)))] \<and>
   chatHistory (render_greeting sourceLang (data\<lparr>response_segments := Some segs\<rparr>) s) =
     chatHistory s @
     [Element ''div'' [''message'', ''ai''] (Children (map (segDiv sourceLang) segs))]"
proof -
  have iff: "(\<not> visible_immediately sourceLang seg) = (lang seg = sourceLang)"
  proof (cases "lang seg = sourceLang")
    case True
    then show ?thesis
      by (simp add: visible_immediately_def segDiv_native collapsed_def)
  next
    case False
    then show ?thesis
      by (simp add: visible_immediately_def segDiv_other collapsed_def)
  qed
  have turn: "chatHistory (display_segments sourceLang (Some (seg # segs)) s) =
      chatHistory s @
      [Element ''div'' [''message'', ''ai''] (Children (map (segDiv sourceLang) (seg # segs)))]"
    by (simp add: display_segments_def responseContainer_blocks)
  have greeting:
    "chatHistory (render_greeting sourceLang (data\<lparr>response_segments := Some segs\<rparr>) s) =
      chatHistory s @
      [Element ''div'' [''message'', ''ai''] (Children (map (segDiv sourceLang) segs))]"
    by (simp add: render_greeting_def responseContainer_blocks)
  show ?thesis
    using iff turn greeting
    by (simp add: shown_native shown_native_toggled shown_other has_toggle_segDiv revealed_native)
qed

theorem segment_disclosure_witness:
  "\<not> visible_immediately ''fr'' \<lparr>lang = ''fr'', s_text = ''En russe on dit''\<rparr> \<and>
   shown (segDiv ''fr'' \<lparr>lang = ''fr'', s_text = ''En russe on dit''\<rparr>) =
     [InnerHTML [Html (emoji_bulb @ '' Traduction ('' @ flag_fr @ '')'')]] \<and>
   shown (toggle_click (segDiv ''fr'' \<lparr>lang = ''fr'', s_text = ''En russe on dit''\<rparr>)) =
     [InnerHTML [Html (emoji_bulb @ '' Traduction ('' @ flag_fr @ '')'')],
      TextContent ''En russe on dit''] \<and>
   visible_immediately ''fr'' \<lparr>lang = ''ru'', s_text = ''Zdravstvujte''\<rparr> \<and>
   shown (segDiv ''fr'' \<lparr>lang = ''ru'', s_text = ''Zdravstvujte''\<rparr>) =
     [TextContent (flag_ru @ '' Zdravstvujte'')]"
  using
    segment_disclosure [of "''fr''" "\<lparr>lang = ''fr'', s_text = ''En russe on dit''\<rparr>"]
    segment_disclosure [of "''fr''" "\<lparr>lang = ''ru'', s_text = ''Zdravstvujte''\<rparr>"]
  by (simp add: langFlag_known)

subsection \<open>Order and number of the rendered blocks\<close>

lemma display_segments_blocks:
  "segs \<noteq> [] \<Longrightarrow>
   chatHistory (display_segments sourceLang (Some segs) s) =
     chatHistory s @
     [Element ''div'' [''message'', ''ai''] (Children (map (segDiv sourceLang) segs))]"
  by (simp add: display_segments_def responseContainer_blocks)

lemma add_segments_static2_history:
  "chatHistory (add_segments_static2 segs s) =
     chatHistory s @
     map (\<lambda>segment.
            message_div
              (langFlag_static2 (lang segment) @ '' <strong>'' @ langName_static2 (lang segment) @
               '':</strong> '' @ s_text segment)
              ''ai'' False True)
         segs"
  by (induction segs arbitrary: s) (simp_all add: addMessage_def)

lemma display_segments_static_one_entry:
  "segs \<noteq> [] \<Longrightarrow>
   chatHistory (display_segments_static (Some segs) s) =
     chatHistory s @ [message_div (combinedMessage_static 0 [] segs) ''ai'' False False]"
  by (simp add: display_segments_static_def addMessage_def)

text \<open>
  C7. The newest revision renders one block per segment, in the order received
  (\<open>display_segments_blocks\<close>), and so does the second revision of
  \<^verbatim>\<open>src/static/app.js\<close> with one message per segment
  (\<open>add_segments_static2_history\<close>), as the preview in \<^verbatim>\<open>src/README.md\<close>
  (lines 394-395) shows it. The first revision of \<^verbatim>\<open>src/static/app.js\<close>
  (lines 94-103) does not: on the two segments \<open>fr:Bonjour\<close>, \<open>ru:Privet\<close> it
  joins the texts into a single message, where the newest revision produces two
  blocks.
\<close>

theorem display_segments_static_merges:
  "chatHistory (display_segments_static
      (Some [\<lparr>lang = ''fr'', s_text = ''Bonjour''\<rparr>, \<lparr>lang = ''ru'', s_text = ''Privet''\<rparr>]) initial) =
     [Element ''div'' [''message'', ''ai'']
        (TextContent (flag_fr @ '' Bonjour '' @ flag_ru @ '' Privet''))] \<and>
   chatHistory (display_segments ''fr''
      (Some [\<lparr>lang = ''fr'', s_text = ''Bonjour''\<rparr>, \<lparr>lang = ''ru'', s_text = ''Privet''\<rparr>]) initial) =
     [Element ''div'' [''message'', ''ai'']
        (Children
          [segDiv ''fr'' \<lparr>lang = ''fr'', s_text = ''Bonjour''\<rparr>,
           segDiv ''fr'' \<lparr>lang = ''ru'', s_text = ''Privet''\<rparr>])]"
  by (simp add: display_segments_static_def display_segments_def responseContainer_blocks
      addMessage_def message_div_def classList_add_def langFlag_static_def initial_def)

subsection \<open>Language indicators\<close>

text \<open>
  C8. In the newest revision a tag other than \<^verbatim>\<open>fr\<close> and \<^verbatim>\<open>ru\<close> gets the empty
  indicator (\<open>langFlag_unrecognized\<close>). Both revisions in \<^verbatim>\<open>src/static/app.js\<close>
  (lines 98 and 305) give every tag other than \<^verbatim>\<open>fr\<close> the Russian flag: the tag
  \<^verbatim>\<open>en\<close> is rendered with it.
\<close>

theorem langFlag_static_unrecognized:
  "langFlag_static ''en'' = flag_ru \<and>
   langFlag_static2 ''en'' = flag_ru \<and>
   flag_ru \<noteq> [] \<and>
   langFlag ''en'' = [] \<and>
   chatHistory (display_segments_static (Some [\<lparr>lang = ''en'', s_text = ''Hello''\<rparr>]) initial) =
     [Element ''div'' [''message'', ''ai''] (TextContent (flag_ru @ '' Hello''))] \<and>
   chatHistory (display_segments ''fr'' (Some [\<lparr>lang = ''en'', s_text = ''Hello''\<rparr>]) initial) =
     [Element ''div'' [''message'', ''ai'']
        (Children
          [Element ''div'' [''segment-block'', ''target-lang-text''] (TextContent '' Hello'')])]"
  by (simp add: langFlag_static_def langFlag_static2_def langFlag_def flags_distinct
      display_segments_static_def display_segments_def responseContainer_blocks segDiv_other
      addMessage_def message_div_def classList_add_def initial_def)

subsection \<open>The correction sentinel\<close>

lemma aiContent_legacy_sentinel:
  "toLowerCase c = sentinel \<Longrightarrow> aiContent_legacy ai_response (Some c) = ai_response"
  by (simp add: aiContent_legacy_def)

lemma aiContent_legacy_other:
  "c \<noteq> [] \<Longrightarrow> toLowerCase c \<noteq> sentinel \<Longrightarrow>
   aiContent_legacy ai_response (Some c) = ai_response @ correction_span_legacy c"
  by (simp add: aiContent_legacy_def)

lemma toLowerCase_capitals:
  "toLowerCase (''AUCUNE CORRECTION N'' @ [CHR 0xC3, CHR 0x89] @ ''CESSAIRE'') = sentinel"
  by code_simp

text \<open>
  C4. The oldest revision drops a correction that equals the sentinel after
  lowering (\<open>aiContent_legacy_sentinel\<close>) and shows any other non-empty one
  (\<open>aiContent_legacy_other\<close>); \<^verbatim>\<open>src/README.md\<close> (line 392) shows the correction
  line as present only when needed. The second revision of \<^verbatim>\<open>src/static/app.js\<close>
  (lines 297-300) has no such test: the correction \<open>Aucune correction n\<acute>ecessaire\<close>,
  which lowers to the sentinel and which the oldest revision drops, is shown there
  as a message of its own.
\<close>

theorem display_correction_static2_shows_sentinel:
  "toLowerCase (''Aucune correction n'' @ e_acute @ ''cessaire'') = sentinel \<and>
   chatHistory (display_correction_static2
      (Some (''Aucune correction n'' @ e_acute @ ''cessaire'')) initial) =
     [Element ''div'' [''message'', ''correction'']
        (TextContent (check_mark @ '' Correction: Aucune correction n'' @ e_acute @ ''cessaire''))] \<and>
   chatHistory (display_ai_legacy ''Tr'' (Some (''Aucune correction n'' @ e_acute @ ''cessaire''))
      initial) =
     [Element ''div'' [''message'', ''ai''] (InnerHTML [Html ''Tr''])]"
proof -
  have lowered: "toLowerCase (''Aucune correction n'' @ e_acute @ ''cessaire'') = sentinel"
    by code_simp
  have shown_static2:
    "chatHistory (display_correction_static2
        (Some (''Aucune correction n'' @ e_acute @ ''cessaire'')) initial) =
     [Element ''div'' [''message'', ''correction'']
        (TextContent (check_mark @ '' Correction: Aucune correction n'' @ e_acute @ ''cessaire''))]"
    by (simp add: display_correction_static2_def addMessage_def message_div_def classList_add_def
        initial_def)
  have dropped_legacy:
    "chatHistory (display_ai_legacy ''Tr''
        (Some (''Aucune correction n'' @ e_acute @ ''cessaire'')) initial) =
     [Element ''div'' [''message'', ''ai''] (InnerHTML [Html ''Tr''])]"
    unfolding display_ai_legacy_def aiContent_legacy_sentinel [OF lowered]
    by (simp add: addMessage_def message_div_def classList_add_def initial_def)
  show ?thesis
    using lowered shown_static2 dropped_legacy by simp
qed

subsection \<open>Capture controller: a press is not guarded\<close>

lemma recording_state_eq:
  "recording_state =
     initial\<lparr>recorders := [Recording], mediaRecorder := Some 0, audioChunks := [7],
       recordBtn_classes := [''recording''], statusText := ''Enregistrement...''\<rparr>"
  by (simp add: recording_state_def startRecording_def ondataavailable_def classList_add_def
      initial_def)

lemma processing_state_eq:
  "processing_state =
     initial\<lparr>recorders := [Inactive], mediaRecorder := Some 0, audioChunks := [7],
       recordBtn_classes := [], statusText := ''Traitement...'',
       chatHistory := [Element ''div'' [''message'', ''user'', ''placeholder''] (TextContent ''...'')],
       fetch_log := [\<lparr>endpoint = ''/chat'',
          form = [(''audio'', Blob [7]), (''source_lang'', Plain ''fr''),
                  (''target_lang'', Plain ''ru''), (''level'', Plain ''A1'')]\<rparr>],
       pending := [ChatCall ''fr'']\<rparr>"
  by (simp add: processing_state_def startRecording_def ondataavailable_def stopRecording_def
      recorder_active_def sendAudio_request_def chat_form_def addMessage_def message_div_def
      classList_add_def classList_remove_def initial_def)

text \<open>
  C3, as stated, fails. While recording with the chunk 7 buffered, a second press
  (microphone granted) empties the buffer and starts a second recorder beside the
  first. While processing, with the upload of the chunk in flight, a press moves
  the controller to recording; the request in flight is not touched.
\<close>

theorem startRecording_press_not_noop:
  "audioChunks recording_state = [7] \<and>
   capturing recording_state = 1 \<and>
   audioChunks (step (Press Granted) recording_state) = [] \<and>
   capturing (step (Press Granted) recording_state) = 2 \<and>
   statusText processing_state = ''Traitement...'' \<and>
   pending processing_state = [ChatCall ''fr''] \<and>
   capturing processing_state = 0 \<and>
   statusText (step (Press Granted) processing_state) = ''Enregistrement...'' \<and>
   capturing (step (Press Granted) processing_state) = 1 \<and>
   audioChunks (step (Press Granted) processing_state) = [] \<and>
   pending (step (Press Granted) processing_state) = [ChatCall ''fr''] \<and>
   step (Press Granted) recording_state \<noteq> recording_state \<and>
   step (Press Granted) processing_state \<noteq> processing_state"
proof -
  have rec: "audioChunks recording_state = [7]" "capturing recording_state = 1"
    "audioChunks (step (Press Granted) recording_state) = []"
    "capturing (step (Press Granted) recording_state) = 2"
    by (simp_all add: recording_state_eq startRecording_def capturing_def initial_def)
  have proc: "statusText processing_state = ''Traitement...''"
    "pending processing_state = [ChatCall ''fr'']"
    "capturing processing_state = 0"
    "statusText (step (Press Granted) processing_state) = ''Enregistrement...''"
    "capturing (step (Press Granted) processing_state) = 1"
    "audioChunks (step (Press Granted) processing_state) = []"
    "pending (step (Press Granted) processing_state) = [ChatCall ''fr'']"
    by (simp_all add: processing_state_eq startRecording_def capturing_def initial_def)
  have "step (Press Granted) recording_state \<noteq> recording_state"
    using rec(1,3) by (metis list.distinct(1))
  moreover have "step (Press Granted) processing_state \<noteq> processing_state"
    using proc(3,5) by (metis zero_neq_one)
  ultimately show ?thesis
    using rec proc by simp
qed

text \<open>
  C3 as amended. A press is not guarded by the controller's state. With the
  microphone granted, a press in any state creates and starts one more recorder,
  makes it the current one, empties the buffered chunks and shows the recording
  status; recorders created before are left as they are, so one more capture is in
  flight than before. Requests already sent, calls awaiting their response and the
  history are not touched by a press, whatever the platform answers. Without audio
  capture, or with access denied, the press only shows an alert.
\<close>

theorem startRecording_unguarded:
  "capturing (startRecording Granted s) = Suc (capturing s) \<and>
   recorders (startRecording Granted s) = recorders s @ [Recording] \<and>
   mediaRecorder (startRecording Granted s) = Some (length (recorders s)) \<and>
   audioChunks (startRecording Granted s) = [] \<and>
   statusText (startRecording Granted s) = ''Enregistrement...'' \<and>
   pending (startRecording m s) = pending s \<and>
   fetch_log (startRecording m s) = fetch_log s \<and>
   chatHistory (startRecording m s) = chatHistory s \<and>
   (m \<noteq> Granted \<longrightarrow>
      startRecording m s = s\<lparr>alerts := alerts (startRecording m s)\<rparr> \<and>
      length (alerts (startRecording m s)) = Suc (length (alerts s)))"
  by (cases m) (simp_all add: startRecording_def capturing_def)

theorem startRecording_unguarded_witness:
  "AccessDenied \<noteq> Granted \<and>
   startRecording AccessDenied processing_state =
     processing_state\<lparr>alerts := [''Impossible d'' @ [CHR 0x27] @ ''acc'' @ e_acute @ ''der au micro.'']\<rparr> \<and>
   capturing (startRecording Granted recording_state) = 2"
proof -
  have "alerts (startRecording AccessDenied processing_state) =
      [''Impossible d'' @ [CHR 0x27] @ ''acc'' @ e_acute @ ''der au micro.'']"
    by (simp add: startRecording_def processing_state_eq initial_def)
  moreover have "capturing recording_state = 1"
    by (simp add: recording_state_eq capturing_def initial_def)
  ultimately show ?thesis
    using startRecording_unguarded [of processing_state AccessDenied]
      startRecording_unguarded [of recording_state Granted]
    by simp
qed

subsection \<open>The history under the placeholder's removal\<close>

lemma filter_remove_first: "filter (\<lambda>x. \<not> P x) (remove_first P xs) = filter (\<lambda>x. \<not> P x) xs"
  by (induction xs) simp_all

lemma remove_first_append_hit:
  "P x \<Longrightarrow> length (filter P (remove_first P (xs @ x # ys))) = length (filter P (xs @ ys))"
  by (induction xs) simp_all

lemma in_remove_first: "x \<in> set xs \<Longrightarrow> \<not> P x \<Longrightarrow> x \<in> set (remove_first P xs)"
  by (induction xs) auto

lemma placeholder_is_placeholder: "is_placeholder (message_div msg ''user'' True isHtml)"
  by (simp add: is_placeholder_def message_div_def classList_add_def)

lemma error_message_settled: "\<not> is_placeholder (message_div msg ''system'' False isHtml)"
  by (simp add: is_placeholder_def message_div_def classList_add_def)

lemma settled_entries_remove_placeholder [simp]:
  "settled_entries (remove_placeholder s) = settled_entries s"
  by (simp add: settled_entries_def remove_placeholder_def filter_remove_first)

subsection \<open>Transport failures\<close>

lemma startSession_resume_failure:
  "transport_failure fr \<Longrightarrow>
   startSession_resume sourceLang fr clips s = s\<lparr>statusText := ''Error starting.''\<rparr>"
  by (cases fr) (simp_all add: startSession_resume_def)

lemma sendAudio_resume_failure:
  "transport_failure fr \<Longrightarrow> sendAudio_resume sourceLang fr clips s = sendAudio_catch s"
  by (cases fr) (simp_all add: sendAudio_resume_def)

lemma drop_nth_last [simp]: "drop_nth (length xs) (xs @ [x]) = xs"
  by (simp add: drop_nth_def)

lemma startSession_failure:
  assumes "lang_checked s = Some l" and "level_select s = Some c" and "transport_failure fr"
  shows "startSession fr clips s =
     s\<lparr>statusText := ''Error starting.'',
       fetch_log := fetch_log s @ [\<lparr>endpoint = ''/start'', form = start_form l (c_value c)\<rparr>]\<rparr>"
  using assms
  by (simp add: startSession_def startSession_request_def startSession_resume_failure)

lemma sendAudio_failure:
  assumes "lang_checked s = Some l" and "transport_failure fr"
  shows "sendAudio fr clips s =
     s\<lparr>statusText := ''Erreur'',
       chatHistory := remove_first is_placeholder
         (chatHistory s @ [message_div ''...'' ''user'' True False,
                           message_div ''Erreur lors du traitement.'' ''system'' False False]),
       fetch_log := fetch_log s @ [\<lparr>endpoint = ''/chat'', form = chat_form l s\<rparr>]\<rparr>"
  using assms
  by (simp add: sendAudio_def sendAudio_request_def sendAudio_resume_failure sendAudio_catch_def
      addMessage_def remove_placeholder_def)

text \<open>
  C5. When the request to \<^verbatim>\<open>/start\<close> fails (network, status or body),
  \<^verbatim>\<open>startSession\<close> only shows the status \<open>Error starting.\<close> and has sent exactly
  one request: no session identifier is stored, the parameter controls and the
  start button are as enabled as before, the history is untouched and no call is
  left suspended, so a further click on the start button sends a new request. When
  the request to \<^verbatim>\<open>/chat\<close> fails, \<^verbatim>\<open>sendAudio\<close> shows the status \<open>Erreur\<close>, has
  sent exactly one request, adds the error message to the history after the
  entries already there, leaves as many placeholders as before, and changes neither
  the session identifier nor the controls.
\<close>

theorem transport_failure_surfaced:
  assumes "lang_checked s = Some l" and "level_select s = Some c" and "transport_failure fr"
    and "transport_failure fr'"
  shows "statusText (startSession fr clips s) = ''Error starting.'' \<and>
     currentSessionId (startSession fr clips s) = currentSessionId s \<and>
     controls (startSession fr clips s) = controls s \<and>
     chatHistory (startSession fr clips s) = chatHistory s \<and>
     pending (startSession fr clips s) = pending s \<and>
     length (fetch_log (startSession fr clips s)) = Suc (length (fetch_log s)) \<and>
     (if startBtn_disabled s then step ClickStart (startSession fr clips s) = startSession fr clips s
      else length (fetch_log (step ClickStart (startSession fr clips s))) =
           Suc (Suc (length (fetch_log s)))) \<and>
     statusText (sendAudio fr' clips' s) = ''Erreur'' \<and>
     settled_entries (sendAudio fr' clips' s) =
       settled_entries s @ [message_div ''Erreur lors du traitement.'' ''system'' False False] \<and>
     length (filter is_placeholder (chatHistory (sendAudio fr' clips' s))) =
       length (filter is_placeholder (chatHistory s)) \<and>
     currentSessionId (sendAudio fr' clips' s) = currentSessionId s \<and>
     controls (sendAudio fr' clips' s) = controls s \<and>
     pending (sendAudio fr' clips' s) = pending s \<and>
     length (fetch_log (sendAudio fr' clips' s)) = Suc (length (fetch_log s))"
proof -
  note start = startSession_failure [OF assms(1,2,3), of clips]
  note chat = sendAudio_failure [OF assms(1,4), of clips']
  have retry: "if startBtn_disabled s
      then step ClickStart (startSession fr clips s) = startSession fr clips s
      else length (fetch_log (step ClickStart (startSession fr clips s))) =
           Suc (Suc (length (fetch_log s)))"
    using assms(1,2) by (simp add: start startSession_request_def)
  have settled: "settled_entries (sendAudio fr' clips' s) =
      settled_entries s @ [message_div ''Erreur lors du traitement.'' ''system'' False False]"
    by (simp add: chat settled_entries_def filter_remove_first placeholder_is_placeholder
        error_message_settled)
  have placeholders: "length (filter is_placeholder (chatHistory (sendAudio fr' clips' s))) =
      length (filter is_placeholder (chatHistory s))"
    using remove_first_append_hit [of is_placeholder "message_div ''...'' ''user'' True False"
        "chatHistory s" "[message_div ''Erreur lors du traitement.'' ''system'' False False]"]
    by (simp add: chat placeholder_is_placeholder error_message_settled)
  show ?thesis
    using retry settled placeholders
    by (simp add: start chat controls_def)
qed

theorem transport_failure_surfaced_witness:
  "statusText (startSession HttpError (\<lambda>i. Ended) initial) = ''Error starting.'' \<and>
   currentSessionId (startSession HttpError (\<lambda>i. Ended) initial) = None \<and>
   controls (startSession HttpError (\<lambda>i. Ended) initial) =
     (Some ''fr'', False, Some \<lparr>c_value = ''A1'', c_disabled = False\<rparr>, False) \<and>
   length (fetch_log (startSession HttpError (\<lambda>i. Ended) initial)) = 1 \<and>
   length (fetch_log (step ClickStart (startSession HttpError (\<lambda>i. Ended) initial))) = 2 \<and>
   statusText (sendAudio NetworkFailure (\<lambda>i. Ended) initial) = ''Erreur'' \<and>
   settled_entries (sendAudio NetworkFailure (\<lambda>i. Ended) initial) =
     [message_div ''Erreur lors du traitement.'' ''system'' False False] \<and>
   length (fetch_log (sendAudio NetworkFailure (\<lambda>i. Ended) initial)) = 1"
proof -
  have pre: "lang_checked initial = Some ''fr''"
    "level_select initial = Some \<lparr>c_value = ''A1'', c_disabled = False\<rparr>"
    "transport_failure (HttpError :: start_data fetched)"
    "transport_failure (NetworkFailure :: chat_data fetched)"
    by (simp_all add: initial_def)
  have init: "currentSessionId initial = None" "fetch_log initial = []"
    "controls initial = (Some ''fr'', False, Some \<lparr>c_value = ''A1'', c_disabled = False\<rparr>, False)"
    "settled_entries initial = []" "\<not> startBtn_disabled initial"
    by (simp_all add: initial_def controls_def settled_entries_def)
  show ?thesis
    using transport_failure_surfaced [OF pre, of "\<lambda>i. Ended" "\<lambda>i. Ended"] init
    by simp
qed

subsection \<open>The parameter controls\<close>

lemma controls_startRecording [simp]: "controls (startRecording m s) = controls s"
  by (cases m) (simp_all add: startRecording_def controls_def)

lemma controls_stopRecording [simp]: "controls (stopRecording s) = controls s"
  by (simp add: stopRecording_def controls_def split: option.splits)

lemma controls_ondataavailable [simp]: "controls (ondataavailable c s) = controls s"
  by (simp add: ondataavailable_def controls_def)

lemma controls_addMessage [simp]: "controls (addMessage msg sender p h s) = controls s"
  by (simp add: addMessage_def controls_def)

lemma controls_remove_placeholder [simp]: "controls (remove_placeholder s) = controls s"
  by (simp add: remove_placeholder_def controls_def)

lemma controls_sendAudio_request [simp]: "controls (sendAudio_request s) = controls s"
  by (simp add: sendAudio_request_def addMessage_def controls_def split: option.splits)

lemma controls_sendAudio_catch [simp]: "controls (sendAudio_catch s) = controls s"
  by (simp add: sendAudio_catch_def controls_def[of "s\<lparr>statusText := ''Erreur''\<rparr>"] controls_def[of s])

lemma controls_render_turn [simp]: "controls (render_turn sourceLang data s) = controls s"
proof -
  have pron: "controls (displayPronunciationFeedback p t) = controls t" for p t
    by (simp add: displayPronunciationFeedback_def controls_def)
  have corr: "controls (displayCorrection a t) = controls t" for a t
    by (simp add: displayCorrection_def controls_def)
  have segs: "controls (display_segments sourceLang sg t) = controls t" for sg t
    by (simp add: display_segments_def controls_def split: option.splits)
  show ?thesis
    by (simp add: render_turn_def Let_def pron corr segs split: option.splits)
qed

lemma controls_update_other [simp]:
  "controls (s\<lparr>statusText := x\<rparr>) = controls s"
  "controls (s\<lparr>played := y\<rparr>) = controls s"
  "controls (s\<lparr>pending := z\<rparr>) = controls s"
  "controls (s\<lparr>chatHistory := h\<rparr>) = controls s"
  by (simp_all add: controls_def)

lemma controls_sendAudio_resume [simp]:
  "controls (sendAudio_resume sourceLang fr clips s) = controls s"
  by (cases fr)
    (simp_all add: sendAudio_resume_def Let_def split: option.splits play_result.splits)

lemma controls_startSession_request [simp]: "controls (startSession_request s) = controls s"
  by (simp add: startSession_request_def controls_def Let_def split: option.splits)

lemma controls_render_greeting [simp]: "controls (render_greeting sourceLang data s) = controls s"
  by (simp add: render_greeting_def controls_def addMessage_def split: option.splits)

lemma render_greeting_fields:
  "lang_checked (render_greeting sourceLang data s) = lang_checked s"
  "level_select (render_greeting sourceLang data s) = level_select s"
  by (simp_all add: render_greeting_def addMessage_def split: option.splits)

lemma controls_save_session:
  "controls (save_session data s) =
     (lang_checked s, True, map_option (\<lambda>c. c\<lparr>c_disabled := True\<rparr>) (level_select s), True)"
  by (simp add: save_session_def controls_def)

lemma params_locked_controls:
  "params_locked s =
     (case controls s of (l, ld, lv, sd) \<Rightarrow>
        ld \<and> sd \<and> (case lv of None \<Rightarrow> False | Some c \<Rightarrow> c_disabled c))"
  by (simp add: params_locked_def controls_def)

lemma session_params_controls:
  "session_params s = (case controls s of (l, ld, lv, sd) \<Rightarrow> (l, map_option c_value lv))"
  by (simp add: session_params_def controls_def)

lemma startSession_resume_locked:
  "params_locked s \<Longrightarrow> controls (startSession_resume sourceLang fr clips s) = controls s"
proof (cases fr)
  case (Response data)
  assume locked: "params_locked s"
  then obtain c where c: "level_select s = Some c" "c_disabled c"
    by (auto simp: params_locked_def split: option.splits)
  have same: "c\<lparr>c_disabled := True\<rparr> = c"
    using c(2) by (cases c) simp
  have "controls (save_session data (render_greeting sourceLang data s)) =
      (lang_checked s, True, Some c, True)"
    by (simp add: controls_save_session render_greeting_fields c(1) same)
  moreover have "controls s = (lang_checked s, True, Some c, True)"
    using locked c(1) by (simp add: controls_def params_locked_def)
  ultimately have "controls (save_session data (render_greeting sourceLang data s)) = controls s"
    by simp
  then show ?thesis
    using Response
    by (simp add: startSession_resume_def Let_def split: option.splits play_result.splits)
qed (simp_all add: startSession_resume_def)

lemma step_locked: "params_locked s \<Longrightarrow> controls (step e s) = controls s"
proof (cases e)
  case ClickStart
  then show ?thesis by simp
next
  case (StartSettled i fr clips)
  assume locked: "params_locked s"
  then have "params_locked (s\<lparr>pending := drop_nth i (pending s)\<rparr>)"
    by (simp add: params_locked_def)
  from startSession_resume_locked [OF this] StartSettled show ?thesis
    by (simp split: call.splits)
next
  case (PickLang l)
  assume "params_locked s"
  with PickLang show ?thesis by (simp add: params_locked_def)
next
  case (PickLevel v)
  assume "params_locked s"
  with PickLevel show ?thesis by (auto simp: params_locked_def split: option.splits)
qed (simp_all split: call.splits)

lemma run_locked: "params_locked s \<Longrightarrow> controls (run evs s) = controls s"
proof (induction evs arbitrary: s)
  case Nil
  show ?case by simp
next
  case (Cons e evs)
  have same: "controls (step e s) = controls s"
    by (rule step_locked [OF Cons.prems])
  then have "params_locked (step e s)"
    using Cons.prems by (simp add: params_locked_controls)
  from Cons.IH [OF this] same show ?case by simp
qed

lemma startSession_success:
  assumes "lang_checked s = Some l" and "level_select s = Some c"
  shows "controls (startSession (Response data) clips s) =
       (Some l, True, Some (c\<lparr>c_disabled := True\<rparr>), True)"
    and "currentSessionId (startSession (Response data) clips s) = session_id data"
proof -
  have resume: "startSession (Response data) clips s =
      startSession_resume l (Response data) clips
        (s\<lparr>statusText := ''Starting session...'',
           fetch_log := fetch_log s @ [\<lparr>endpoint = ''/start'', form = start_form l (c_value c)\<rparr>]\<rparr>)"
    using assms by (simp add: startSession_def startSession_request_def)
  show "controls (startSession (Response data) clips s) =
       (Some l, True, Some (c\<lparr>c_disabled := True\<rparr>), True)"
    using assms unfolding resume
    by (simp add: startSession_resume_def Let_def controls_save_session render_greeting_fields
        split: option.splits play_result.splits)
  show "currentSessionId (startSession (Response data) clips s) = session_id data"
    unfolding resume
    by (simp add: startSession_resume_def Let_def save_session_def
        split: option.splits play_result.splits)
qed

text \<open>
  C6. When \<^verbatim>\<open>startSession\<close> receives its data, it stores the session identifier
  and disables the language radios, the level control and the start button, the
  parameters staying as they were read. From then on, whatever happens (clicks,
  presses and releases, recorder events, responses and failures of suspended calls,
  attempts of the user to change a control), the controls stay disabled and the
  native language and the level keep their values; the target language is the
  other one of the two languages.
\<close>

theorem session_parameters_latched:
  assumes "lang_checked s = Some l" and "level_select s = Some c"
  shows "currentSessionId (startSession (Response data) clips s) = session_id data \<and>
     params_locked (startSession (Response data) clips s) \<and>
     session_params (startSession (Response data) clips s) = (Some l, Some (c_value c)) \<and>
     params_locked (run evs (startSession (Response data) clips s)) \<and>
     session_params (run evs (startSession (Response data) clips s)) = (Some l, Some (c_value c))"
proof -
  note started = startSession_success [OF assms, of data clips]
  have locked: "params_locked (startSession (Response data) clips s)"
    by (simp add: params_locked_controls started(1))
  have later: "controls (run evs (startSession (Response data) clips s)) =
      (Some l, True, Some (c\<lparr>c_disabled := True\<rparr>), True)"
    using run_locked [OF locked, of evs] started(1) by simp
  show ?thesis
    using started(2) locked
    by (simp add: params_locked_controls session_params_controls started(1) later)
qed

theorem session_parameters_latched_witness:
  "params_locked
     (run [PickLang ''ru'', PickLevel ''B2'', ClickStart, Press Granted, Release, RecorderStopped,
           ChatSettled 0 HttpError (\<lambda>i. Ended)]
        (startSession
           (Response \<lparr>session_id = Some ''s-1'', response_segments = None,
                      start_audio_segments = None\<rparr>)
           (\<lambda>i. Ended) initial)) \<and>
   session_params
     (run [PickLang ''ru'', PickLevel ''B2'', ClickStart, Press Granted, Release, RecorderStopped,
           ChatSettled 0 HttpError (\<lambda>i. Ended)]
        (startSession
           (Response \<lparr>session_id = Some ''s-1'', response_segments = None,
                      start_audio_segments = None\<rparr>)
           (\<lambda>i. Ended) initial)) = (Some ''fr'', Some ''A1'') \<and>
   currentSessionId
     (startSession
        (Response \<lparr>session_id = Some ''s-1'', response_segments = None,
                   start_audio_segments = None\<rparr>)
        (\<lambda>i. Ended) initial) = Some ''s-1''"
proof -
  have pre: "lang_checked initial = Some ''fr''"
    "level_select initial = Some \<lparr>c_value = ''A1'', c_disabled = False\<rparr>"
    by (simp_all add: initial_def)
  show ?thesis
    using session_parameters_latched [OF pre,
        of "\<lparr>session_id = Some ''s-1'', response_segments = None, start_audio_segments = None\<rparr>"
           "\<lambda>i. Ended"
           "[PickLang ''ru'', PickLevel ''B2'', ClickStart, Press Granted, Release, RecorderStopped,
             ChatSettled 0 HttpError (\<lambda>i. Ended)]"]
    by simp
qed

subsection \<open>The conversation history\<close>

lemma settled_entries_append:
  "settled_entries (s\<lparr>chatHistory := chatHistory s @ xs\<rparr>) =
     settled_entries s @ filter (\<lambda>el. \<not> is_placeholder el) xs"
  by (simp add: settled_entries_def)

lemma settled_entries_other [simp]:
  "settled_entries (s\<lparr>statusText := a\<rparr>) = settled_entries s"
  "settled_entries (s\<lparr>played := b\<rparr>) = settled_entries s"
  "settled_entries (s\<lparr>pending := c\<rparr>) = settled_entries s"
  "settled_entries (s\<lparr>fetch_log := d\<rparr>) = settled_entries s"
  "settled_entries (s\<lparr>lang_checked := e\<rparr>) = settled_entries s"
  "settled_entries (s\<lparr>level_select := f\<rparr>) = settled_entries s"
  by (simp_all add: settled_entries_def)

lemma grows_append:
  "prefix (settled_entries s) (settled_entries (s\<lparr>chatHistory := chatHistory s @ xs\<rparr>))"
  by (simp add: settled_entries_append)

lemma grows_addMessage:
  "prefix (settled_entries s) (settled_entries (addMessage msg sender p h s))"
  unfolding addMessage_def by (rule grows_append)

lemma grows_displayPronunciationFeedback:
  "prefix (settled_entries s) (settled_entries (displayPronunciationFeedback p s))"
  unfolding displayPronunciationFeedback_def by (rule grows_append)

lemma grows_displayCorrection:
  "prefix (settled_entries s) (settled_entries (displayCorrection a s))"
  unfolding displayCorrection_def by (simp add: grows_append)

lemma grows_display_segments:
  "prefix (settled_entries s) (settled_entries (display_segments sourceLang sg s))"
  unfolding display_segments_def by (simp add: grows_append split: option.splits)

lemma grows_render_turn:
  "prefix (settled_entries s) (settled_entries (render_turn sourceLang data s))"
proof -
  define s1 where "s1 = remove_placeholder s"
  define s2 where "s2 = addMessage (user_text data) ''user'' False False s1"
  define s3 where "s3 = (case pronunciation data of
      None \<Rightarrow> s2 | Some p \<Rightarrow> displayPronunciationFeedback p s2)"
  define s4 where "s4 = (case user_analysis data of
      None \<Rightarrow> s3 | Some a \<Rightarrow> displayCorrection a s3)"
  have "settled_entries s1 = settled_entries s"
    by (simp add: s1_def)
  moreover have "prefix (settled_entries s1) (settled_entries s2)"
    unfolding s2_def by (rule grows_addMessage)
  moreover have "prefix (settled_entries s2) (settled_entries s3)"
    unfolding s3_def by (simp add: grows_displayPronunciationFeedback split: option.splits)
  moreover have "prefix (settled_entries s3) (settled_entries s4)"
    unfolding s4_def by (simp add: grows_displayCorrection split: option.splits)
  moreover have "prefix (settled_entries s4)
      (settled_entries (display_segments sourceLang (segments data) s4))"
    by (rule grows_display_segments)
  moreover have "render_turn sourceLang data s = display_segments sourceLang (segments data) s4"
    unfolding render_turn_def Let_def s1_def s2_def s3_def s4_def by (rule refl)
  ultimately show ?thesis
    by (metis prefix_order.trans)
qed

lemma grows_sendAudio_catch:
  "prefix (settled_entries s) (settled_entries (sendAudio_catch s))"
  using grows_addMessage [of "s\<lparr>statusText := ''Erreur''\<rparr>"]
  by (simp add: sendAudio_catch_def)

lemma grows_sendAudio_resume:
  "prefix (settled_entries s) (settled_entries (sendAudio_resume sourceLang fr clips s))"
proof (cases fr)
  case (Response data)
  define s5 where "s5 = render_turn sourceLang data s"
  have base: "prefix (settled_entries s) (settled_entries s5)"
    unfolding s5_def by (rule grows_render_turn)
  have caught: "prefix (settled_entries s) (settled_entries (sendAudio_catch (s5\<lparr>played := tr\<rparr>)))"
    for tr
    using grows_sendAudio_catch [of "s5\<lparr>played := tr\<rparr>"] base
    by (simp add: prefix_order.trans)
  show ?thesis
    using Response base caught
    by (simp add: sendAudio_resume_def Let_def s5_def [symmetric]
        split: option.splits play_result.splits)
qed (simp_all add: sendAudio_resume_def grows_sendAudio_catch)

lemma grows_render_greeting:
  "prefix (settled_entries s) (settled_entries (render_greeting sourceLang data s))"
  by (simp add: render_greeting_def grows_append grows_addMessage split: option.splits)

lemma settled_entries_save_session [simp]:
  "settled_entries (save_session data s) = settled_entries s"
  by (simp add: save_session_def settled_entries_def)

lemma grows_startSession_resume:
  "prefix (settled_entries s) (settled_entries (startSession_resume sourceLang fr clips s))"
  by (cases fr)
    (simp_all add: startSession_resume_def Let_def grows_render_greeting
      split: option.splits play_result.splits)

lemma settled_sendAudio_request: "settled_entries (sendAudio_request s) = settled_entries s"
  by (simp add: sendAudio_request_def addMessage_def settled_entries_def
      placeholder_is_placeholder split: option.splits)

lemma settled_startSession_request: "settled_entries (startSession_request s) = settled_entries s"
  by (simp add: startSession_request_def Let_def settled_entries_def split: option.splits)

lemma settled_capture:
  "settled_entries (startRecording m s) = settled_entries s"
  "settled_entries (stopRecording s) = settled_entries s"
  "settled_entries (ondataavailable c s) = settled_entries s"
  by (simp_all add: startRecording_def stopRecording_def ondataavailable_def settled_entries_def
      split: mic.splits option.splits)

lemma settled_step_other:
  "\<not> is_settle e \<Longrightarrow> \<not> is_toggle e \<Longrightarrow> settled_entries (step e s) = settled_entries s"
  by (cases e)
    (simp_all add: settled_sendAudio_request settled_startSession_request settled_capture
      split: option.splits)

lemma grows_step: "\<not> is_toggle e \<Longrightarrow> prefix (settled_entries s) (settled_entries (step e s))"
proof (cases "is_settle e")
  case False
  assume "\<not> is_toggle e"
  with False show ?thesis by (simp add: settled_step_other)
next
  case True
  then show ?thesis
  proof (cases e)
    case (StartSettled i fr clips)
    then show ?thesis
      using grows_startSession_resume [of "s\<lparr>pending := drop_nth i (pending s)\<rparr>"]
      by (simp split: call.splits)
  next
    case (ChatSettled i fr clips)
    then show ?thesis
      using grows_sendAudio_resume [of "s\<lparr>pending := drop_nth i (pending s)\<rparr>"]
      by (simp split: call.splits)
  qed simp_all
qed

lemma grows_run:
  "list_all (\<lambda>e. \<not> is_toggle e) evs \<Longrightarrow>
   prefix (settled_entries s) (settled_entries (run evs s))"
proof (induction evs arbitrary: s)
  case Nil
  show ?case by simp
next
  case (Cons e evs)
  then have "prefix (settled_entries s) (settled_entries (step e s))"
    by (simp add: grows_step)
  also have "prefix (settled_entries (step e s)) (settled_entries (run evs (step e s)))"
    using Cons by simp
  finally show ?case by simp
qed

subsection \<open>The toggle of a tip\<close>

lemma without_visible_classes:
  "removeAll ''visible'' cs = removeAll ''visible'' cs' \<Longrightarrow>
   without_visible (Element t cs c) = without_visible (Element t cs' c)"
  by (cases c) simp_all

lemma without_visible_toggled:
  "without_visible (Element t (classList_toggle ''visible'' cs) c) = without_visible (Element t cs c)"
  by (rule without_visible_classes) (simp add: classList_toggle_def)

lemma without_visible_toggle_click: "without_visible (toggle_click el) = without_visible el"
  by (induction el rule: toggle_click.induct) (simp_all add: without_visible_toggled)

lemma without_visible_toggle_tip: "without_visible (toggle_tip j el) = without_visible el"
proof (induction j el rule: toggle_tip.induct)
  case (1 j t cs es)
  have "map without_visible (es[j := toggle_click (es ! j)]) = map without_visible es"
    if "j < length es"
    using that by (simp add: map_update without_visible_toggle_click list_update_same_conv)
  then show ?case by simp
qed simp_all

lemma is_placeholder_toggle_tip: "is_placeholder (toggle_tip j el) = is_placeholder el"
  by (induction j el rule: toggle_tip.induct) (simp_all add: is_placeholder_def)

lemma map_update_invisible:
  assumes "\<And>x. f (g x) = f x"
  shows "i < length xs \<Longrightarrow> map f (xs[i := g (xs ! i)]) = map f xs"
  by (simp add: map_update assms list_update_same_conv)

lemma filter_update_invisible:
  assumes "\<And>x. P (g x) = P x" and "\<And>x. f (g x) = f x"
  shows "i < length xs \<Longrightarrow> map f (filter P (xs[i := g (xs ! i)])) = map f (filter P xs)"
proof (induction xs arbitrary: i)
  case Nil
  then show ?case by simp
next
  case (Cons x xs)
  show ?case
  proof (cases i)
    case 0
    then show ?thesis by (simp add: assms)
  next
    case (Suc k)
    with Cons.prems have "k < length xs" by simp
    from Cons.IH [OF this] Suc show ?thesis by simp
  qed
qed

lemma toggle_history:
  "map without_visible (chatHistory (step (ToggleTip i j) s)) =
     map without_visible (chatHistory s)"
  by (simp add: map_update_invisible [of without_visible "toggle_tip j"] without_visible_toggle_tip)

lemma toggle_settled:
  "map without_visible (settled_entries (step (ToggleTip i j) s)) =
     map without_visible (settled_entries s)"
  using filter_update_invisible
    [of "\<lambda>el. \<not> is_placeholder el" "toggle_tip j" without_visible i "chatHistory s"]
  by (simp add: settled_entries_def is_placeholder_toggle_tip without_visible_toggle_tip)

lemma grows_step_modulo:
  "prefix (map without_visible (settled_entries s))
     (map without_visible (settled_entries (step e s)))"
proof (cases "is_toggle e")
  case True
  then obtain i j where "e = ToggleTip i j"
    by (cases e) simp_all
  then show ?thesis by (simp only: toggle_settled prefix_order.order_refl)
next
  case False
  then show ?thesis by (simp add: grows_step map_mono_prefix)
qed

lemma grows_run_modulo:
  "prefix (map without_visible (settled_entries s))
     (map without_visible (settled_entries (run evs s)))"
proof (induction evs arbitrary: s)
  case Nil
  show ?case by simp
next
  case (Cons e evs)
  have "prefix (map without_visible (settled_entries s))
      (map without_visible (settled_entries (step e s)))"
    by (rule grows_step_modulo)
  also have "prefix (map without_visible (settled_entries (step e s)))
      (map without_visible (settled_entries (run evs (step e s))))"
    by (rule Cons.IH)
  finally show ?case by simp
qed

text \<open>
  C9, as stated, fails. When the recorder stops, \<^verbatim>\<open>sendAudio\<close> appends the
  placeholder \<open>...\<close> to the history before the request is answered (the call is
  still suspended), and when the response arrives that entry is removed: the
  history after the turn does not extend the history before the response.
\<close>

theorem placeholder_added_then_removed:
  "chatHistory (step RecorderStopped initial) =
     [Element ''div'' [''message'', ''user'', ''placeholder''] (TextContent ''...'')] \<and>
   pending (step RecorderStopped initial) = [ChatCall ''fr''] \<and>
   chatHistory
     (run [RecorderStopped,
           ChatSettled 0
             (Response \<lparr>user_text = ''Bonjour'', pronunciation = None, user_analysis = None,
                        segments = None, audio_segments = None\<rparr>)
             (\<lambda>i. Ended)] initial) =
     [Element ''div'' [''message'', ''user''] (TextContent ''Bonjour'')] \<and>
   \<not> prefix (chatHistory (step RecorderStopped initial))
     (chatHistory
        (run [RecorderStopped,
              ChatSettled 0
                (Response \<lparr>user_text = ''Bonjour'', pronunciation = None, user_analysis = None,
                           segments = None, audio_segments = None\<rparr>)
                (\<lambda>i. Ended)] initial))"
  by (simp add: sendAudio_request_def sendAudio_resume_def render_turn_def display_segments_def
      remove_placeholder_def addMessage_def message_div_def classList_add_def is_placeholder_def
      drop_nth_def chat_form_def initial_def)

text \<open>
  C9 as amended. Apart from the placeholder of a pending turn, which
  \<^verbatim>\<open>sendAudio\<close> appends before the request is sent and removes when the response or
  the failure arrives, the history is append-only: over any sequence of events the
  entries that are not placeholders stay, in their order and unchanged but for the
  class \<^verbatim>\<open>visible\<close> that a click on a tip's toggle switches, and new ones are added
  after them; without such clicks they stay exactly as rendered. Entries other than
  the placeholder are added only when a suspended call resumes, that is after the
  backend's response (or the failure) has arrived; every other event leaves them as
  they are, and what \<^verbatim>\<open>sendAudio\<close> adds before the response is the placeholder
  alone.
\<close>

theorem history_append_only_but_placeholder:
  "prefix (map without_visible (settled_entries s))
     (map without_visible (settled_entries (run evs s))) \<and>
   (list_all (\<lambda>e. \<not> is_toggle e) evs \<longrightarrow>
      prefix (settled_entries s) (settled_entries (run evs s))) \<and>
   (is_toggle e \<longrightarrow>
      map without_visible (chatHistory (step e s)) = map without_visible (chatHistory s)) \<and>
   (\<not> is_settle e \<and> \<not> is_toggle e \<longrightarrow> settled_entries (step e s) = settled_entries s) \<and>
   (chatHistory (sendAudio_request s) = chatHistory s \<or>
    chatHistory (sendAudio_request s) = chatHistory s @ [message_div ''...'' ''user'' True False]) \<and>
   is_placeholder (message_div ''...'' ''user'' True False) \<and>
   chatHistory (startSession_request s) = chatHistory s"
proof -
  have request: "chatHistory (sendAudio_request s) = chatHistory s \<or>
      chatHistory (sendAudio_request s) = chatHistory s @ [message_div ''...'' ''user'' True False]"
    by (simp add: sendAudio_request_def addMessage_def split: option.splits)
  have start: "chatHistory (startSession_request s) = chatHistory s"
    by (simp add: startSession_request_def Let_def split: option.splits)
  have toggle: "map without_visible (chatHistory (step e s)) = map without_visible (chatHistory s)"
    if "is_toggle e"
  proof -
    from that obtain i j where "e = ToggleTip i j"
      by (cases e) simp_all
    then show ?thesis by (simp only: toggle_history)
  qed
  show ?thesis
    using grows_run_modulo [of s evs] grows_run [of evs s] settled_step_other [of e s] toggle
      request start placeholder_is_placeholder [of "''...''" False]
    by blast
qed

theorem history_append_only_but_placeholder_witness:
  "\<not> is_settle (Press Granted) \<and> \<not> is_toggle (Press Granted) \<and>
   list_all (\<lambda>e. \<not> is_toggle e)
     [RecorderStopped, ChatSettled 0 HttpError (\<lambda>i. Ended), Press Granted] \<and>
   settled_entries
     (run [RecorderStopped, ChatSettled 0 HttpError (\<lambda>i. Ended), Press Granted]
        (addMessage ''Bonjour'' ''user'' False False initial)) =
     [message_div ''Bonjour'' ''user'' False False,
      message_div ''Erreur lors du traitement.'' ''system'' False False] \<and>
   prefix [message_div ''Bonjour'' ''user'' False False]
     (settled_entries
        (run [RecorderStopped, ChatSettled 0 HttpError (\<lambda>i. Ended), Press Granted]
           (addMessage ''Bonjour'' ''user'' False False initial))) \<and>
   settled_entries (step (Press Granted) (addMessage ''Bonjour'' ''user'' False False initial)) =
     [message_div ''Bonjour'' ''user'' False False]"
proof -
  have before: "settled_entries (addMessage ''Bonjour'' ''user'' False False initial) =
      [message_div ''Bonjour'' ''user'' False False]"
    by (simp add: addMessage_def settled_entries_def message_div_def classList_add_def
        is_placeholder_def initial_def)
  have after: "settled_entries
     (run [RecorderStopped, ChatSettled 0 HttpError (\<lambda>i. Ended), Press Granted]
        (addMessage ''Bonjour'' ''user'' False False initial)) =
     [message_div ''Bonjour'' ''user'' False False,
      message_div ''Erreur lors du traitement.'' ''system'' False False]"
    by (simp add: sendAudio_request_def sendAudio_resume_def sendAudio_catch_def
        startRecording_def remove_placeholder_def addMessage_def settled_entries_def
        message_div_def classList_add_def is_placeholder_def drop_nth_def initial_def)
  show ?thesis
    using history_append_only_but_placeholder
      [of "addMessage ''Bonjour'' ''user'' False False initial"
          "[RecorderStopped, ChatSettled 0 HttpError (\<lambda>i. Ended), Press Granted]"
          "Press Granted"]
      before after
    by simp
qed

subsection \<open>The pronunciation panel\<close>

lemma toFixed_zero: "toFixed (Suc 0) 0 = ''0.0''"
  by code_simp

lemma score_html_zero:
  "score_html 0 =
     [Html (''<div class=\"pronunciation-header\"><h4>'' @ emoji_again @
            '' Prononciation: 0.0%</h4></div>''),
      Html ''<div class=\"score-bar needs-work\"><div class=\"score-fill\" style=\"width: '',
      HtmlNum 0,
      Html ''%\"></div></div>'']"
  by (simp add: score_html_def scoreEmoji_def scoreClass_def toFixed_zero)

lemma or_zero_missing: "v = None \<or> v = Some 0 \<Longrightarrow> or_zero v = 0"
  by (auto simp: or_zero_def)

lemma panel_settled: "\<not> is_placeholder (pronunciation_panel p)"
  by (simp add: is_placeholder_def pronunciation_panel_def classList_add_def)

lemma panel_in_settled:
  "pronunciation data = Some p \<Longrightarrow>
   pronunciation_panel p \<in> set (settled_entries (render_turn sourceLang data s))"
proof -
  assume some: "pronunciation data = Some p"
  define s2 where "s2 = addMessage (user_text data) ''user'' False False (remove_placeholder s)"
  define s3 where "s3 = displayPronunciationFeedback p s2"
  define s4 where "s4 = (case user_analysis data of
      None \<Rightarrow> s3 | Some a \<Rightarrow> displayCorrection a s3)"
  have "pronunciation_panel p \<in> set (settled_entries s3)"
    by (simp add: s3_def displayPronunciationFeedback_def settled_entries_def panel_settled)
  moreover have "prefix (settled_entries s3) (settled_entries s4)"
    unfolding s4_def by (simp add: grows_displayCorrection split: option.splits)
  moreover have "prefix (settled_entries s4)
      (settled_entries (display_segments sourceLang (segments data) s4))"
    by (rule grows_display_segments)
  moreover have "render_turn sourceLang data s = display_segments sourceLang (segments data) s4"
    unfolding render_turn_def Let_def s2_def s3_def s4_def some option.case by (rule refl)
  ultimately show ?thesis
    by (metis set_mono_prefix subsetD)
qed

lemma panel_in_history:
  "pronunciation data = Some p \<Longrightarrow>
   pronunciation_panel p \<in> set (chatHistory (sendAudio_resume sourceLang (Response data) clips s))"
proof -
  assume some: "pronunciation data = Some p"
  have "prefix (settled_entries (render_turn sourceLang data s))
      (settled_entries (sendAudio_resume sourceLang (Response data) clips s))"
    using grows_sendAudio_catch
      [of "(render_turn sourceLang data s)\<lparr>played := tr\<rparr>" for tr]
    by (simp add: sendAudio_resume_def Let_def split: option.splits play_result.splits)
  with panel_in_settled [OF some, of sourceLang s]
  have "pronunciation_panel p \<in>
      set (settled_entries (sendAudio_resume sourceLang (Response data) clips s))"
    by (metis set_mono_prefix subsetD)
  then show ?thesis
    by (simp add: settled_entries_def)
qed

text \<open>
  C10. Whenever the response to \<^verbatim>\<open>/chat\<close> carries a pronunciation object, the
  history after \<^verbatim>\<open>sendAudio\<close> has resumed contains the pronunciation panel built
  from it, whatever else the response holds and however the playback goes. When
  the object's score is missing or zero, the panel is built with the score 0: its
  header reads \<open>Prononciation: 0.0%\<close>, with the lowest band's emoji and class, and
  the bar's width is 0.
\<close>

theorem pronunciation_panel_rendered:
  "(pronunciation data = Some p \<longrightarrow>
      pronunciation_panel p \<in>
        set (chatHistory (sendAudio_resume sourceLang (Response data) clips s))) \<and>
   (score p = None \<or> score p = Some 0 \<longrightarrow>
      pronunciation_panel p =
        Element ''div'' [''pronunciation-panel'']
          (InnerHTML
             ([Html (''<div class=\"pronunciation-header\"><h4>'' @ emoji_again @
                     '' Prononciation: 0.0%</h4></div>''),
               Html ''<div class=\"score-bar needs-work\"><div class=\"score-fill\" style=\"width: '',
               HtmlNum 0,
               Html ''%\"></div></div>''] @
              words_html (words p) @ prosody_html (prosody p) @ feedback_html (feedback p))))"
proof -
  have zero: "pronunciation_panel p =
        Element ''div'' [''pronunciation-panel'']
          (InnerHTML
             ([Html (''<div class=\"pronunciation-header\"><h4>'' @ emoji_again @
                     '' Prononciation: 0.0%</h4></div>''),
               Html ''<div class=\"score-bar needs-work\"><div class=\"score-fill\" style=\"width: '',
               HtmlNum 0,
               Html ''%\"></div></div>''] @
              words_html (words p) @ prosody_html (prosody p) @ feedback_html (feedback p)))"
    if "score p = None \<or> score p = Some 0"
    using or_zero_missing [OF that]
    by (simp add: pronunciation_panel_def score_html_zero classList_add_def)
  show ?thesis
    using panel_in_history [of data p sourceLang clips s] zero by blast
qed

theorem pronunciation_panel_rendered_witness:
  "pronunciation_panel \<lparr>score = None, words = None, prosody = None, feedback = None\<rparr> =
     Element ''div'' [''pronunciation-panel'']
       (InnerHTML
          [Html (''<div class=\"pronunciation-header\"><h4>'' @ emoji_again @
                 '' Prononciation: 0.0%</h4></div>''),
           Html ''<div class=\"score-bar needs-work\"><div class=\"score-fill\" style=\"width: '',
           HtmlNum 0,
           Html ''%\"></div></div>'']) \<and>
   pronunciation_panel \<lparr>score = None, words = None, prosody = None, feedback = None\<rparr> \<in>
     set (chatHistory
       (sendAudio_resume ''fr''
          (Response \<lparr>user_text = ''Bonjour'',
                     pronunciation =
                       Some \<lparr>score = None, words = None, prosody = None, feedback = None\<rparr>,
                     user_analysis = None, segments = None, audio_segments = None\<rparr>)
          (\<lambda>i. Ended) initial))"
proof -
  note inst = pronunciation_panel_rendered
    [of "\<lparr>user_text = ''Bonjour'',
          pronunciation = Some \<lparr>score = None, words = None, prosody = None, feedback = None\<rparr>,
          user_analysis = None, segments = None, audio_segments = None\<rparr>"
        "\<lparr>score = None, words = None, prosody = None, feedback = None\<rparr>"
        "''fr''" "\<lambda>i. Ended" initial]
  have shown: "pronunciation_panel \<lparr>score = None, words = None, prosody = None, feedback = None\<rparr> \<in>
     set (chatHistory
       (sendAudio_resume ''fr''
          (Response \<lparr>user_text = ''Bonjour'',
                     pronunciation =
                       Some \<lparr>score = None, words = None, prosody = None, feedback = None\<rparr>,
                     user_analysis = None, segments = None, audio_segments = None\<rparr>)
          (\<lambda>i. Ended) initial))"
    using inst [THEN conjunct1] by simp
  have zero: "pronunciation_panel \<lparr>score = None, words = None, prosody = None, feedback = None\<rparr> =
     Element ''div'' [''pronunciation-panel'']
       (InnerHTML
          [Html (''<div class=\"pronunciation-header\"><h4>'' @ emoji_again @
                 '' Prononciation: 0.0%</h4></div>''),
           Html ''<div class=\"score-bar needs-work\"><div class=\"score-fill\" style=\"width: '',
           HtmlNum 0,
           Html ''%\"></div></div>''])"
    using inst [THEN conjunct2]
    by (simp add: words_html_def prosody_html_def feedback_html_def)
  show ?thesis
    using zero shown by (rule conjI)
qed

end
